theory Spec2Isabelle
  imports Main "HOL-Library.AList"
begin

text \<open>
  A shallow embedding of the \<open>Index\<close> class of the note store (the interface between the
  application and Chrome's local storage), of the normalizer registry it uses, and of the
  part of Chrome's storage API it calls.
\<close>

section \<open>Strings and the normalizer registry\<close>

text \<open>
  A phrase is a \<^typ>\<open>string\<close>. A \<^typ>\<open>char\<close> is read as the UTF-16 code unit of the
  same number, so the strings of this development are exactly the JavaScript strings
  over U+0000 .. U+00FF (Latin-1). On that repertoire the Unicode operations the
  normalizers call are finite tables, written out below from the Unicode character
  database:
  \<^item> \<open>\s\<close> of a JavaScript regular expression: TAB, LF, VT, FF, CR, SPACE, NBSP;
  \<^item> \<open>\p{L}\<close>: A-Z, a-z, U+00AA, U+00B5, U+00BA, U+00C0-U+00D6, U+00D8-U+00F6,
    U+00F8-U+00FF; \<open>\p{N}\<close>: 0-9, U+00B2, U+00B3, U+00B9, U+00BC-U+00BE;
  \<^item> \<open>toLowerCase\<close> (and \<open>toLocaleLowerCase\<close> in a locale without special casing):
    A-Z, U+00C0-U+00D6 and U+00D8-U+00DE move up by 32;
  \<^item> \<open>normalize('NFD')\<close> splits each of the accented letters U+00C0-U+00FF into its
    base letter and one combining mark of U+0300-U+036F, and nothing else.
\<close>

definition codeUnit :: "char \<Rightarrow> int" where
  "codeUnit c = of_char c"

definition isSpace :: "char \<Rightarrow> bool" where
  "isSpace c = (codeUnit c \<in> {0x09, 0x0A, 0x0B, 0x0C, 0x0D, 0x20, 0xA0})"

definition isL :: "char \<Rightarrow> bool" where
  "isL c = (let n = codeUnit c in
     (0x41 \<le> n \<and> n \<le> 0x5A) \<or> (0x61 \<le> n \<and> n \<le> 0x7A) \<or> n = 0xAA \<or> n = 0xB5 \<or> n = 0xBA \<or>
     (0xC0 \<le> n \<and> n \<le> 0xD6) \<or> (0xD8 \<le> n \<and> n \<le> 0xF6) \<or> (0xF8 \<le> n \<and> n \<le> 0xFF))"

definition isN :: "char \<Rightarrow> bool" where
  "isN c = (let n = codeUnit c in
     (0x30 \<le> n \<and> n \<le> 0x39) \<or> n = 0xB2 \<or> n = 0xB3 \<or> n = 0xB9 \<or> (0xBC \<le> n \<and> n \<le> 0xBE))"

text \<open>\<open>toLowerCase\<close> on one code unit.\<close>

definition lowerChar :: "char \<Rightarrow> char" where
  "lowerChar c = (let n = codeUnit c in
     if (0x41 \<le> n \<and> n \<le> 0x5A) \<or> (0xC0 \<le> n \<and> n \<le> 0xD6) \<or> (0xD8 \<le> n \<and> n \<le> 0xDE)
     then char_of (n + 32) else c)"

definition toLowerCase :: "string \<Rightarrow> string" where
  "toLowerCase s = map lowerChar s"

text \<open>
  \<open>stripDiacrics(s)\<close> is \<open>s.normalize('NFD')\<close> with the code units U+0300-U+036F removed: on a Latin-1
  code unit the decomposition followed by the removal of the combining mark leaves the
  base letter.
\<close>

definition baseChar :: "char \<Rightarrow> char" where
  "baseChar c = (let n = codeUnit c in
     if 0xC0 \<le> n \<and> n \<le> 0xC5 then CHR ''A''
     else if n = 0xC7 then CHR ''C''
     else if 0xC8 \<le> n \<and> n \<le> 0xCB then CHR ''E''
     else if 0xCC \<le> n \<and> n \<le> 0xCF then CHR ''I''
     else if n = 0xD1 then CHR ''N''
     else if 0xD2 \<le> n \<and> n \<le> 0xD6 then CHR ''O''
     else if 0xD9 \<le> n \<and> n \<le> 0xDC then CHR ''U''
     else if n = 0xDD then CHR ''Y''
     else if 0xE0 \<le> n \<and> n \<le> 0xE5 then CHR ''a''
     else if n = 0xE7 then CHR ''c''
     else if 0xE8 \<le> n \<and> n \<le> 0xEB then CHR ''e''
     else if 0xEC \<le> n \<and> n \<le> 0xEF then CHR ''i''
     else if n = 0xF1 then CHR ''n''
     else if 0xF2 \<le> n \<and> n \<le> 0xF6 then CHR ''o''
     else if 0xF9 \<le> n \<and> n \<le> 0xFC then CHR ''u''
     else if n = 0xFD \<or> n = 0xFF then CHR ''y''
     else c)"

definition stripDiacrics :: "string \<Rightarrow> string" where
  "stripDiacrics s = map baseChar s"

text \<open>\<open>s.replace(/^\s+|\s+$/g, '')\<close>: the leading and the trailing run of white space go.\<close>

definition trim :: "string \<Rightarrow> string" where
  "trim s = rev (dropWhile isSpace (rev (dropWhile isSpace s)))"

text \<open>
  \<open>s.replace(/\s+/g, ' ')\<close>: every maximal run of white space becomes one space. The
  flag says that the previous code unit was white space, so the run is already replaced.
\<close>

primrec collapseFrom :: "bool \<Rightarrow> string \<Rightarrow> string" where
  "collapseFrom inRun [] = []"
| "collapseFrom inRun (c # cs) =
     (if isSpace c then (if inRun then collapseFrom True cs else CHR '' '' # collapseFrom True cs)
      else c # collapseFrom False cs)"

definition collapse :: "string \<Rightarrow> string" where
  "collapse s = collapseFrom False s"

text \<open>\<open>s.replace(/[^\p{L}\p{N} _'-]+/ug, '')\<close> keeps the code units of the class.\<close>

definition kept :: "char \<Rightarrow> bool" where
  "kept c = (isL c \<or> isN c \<or> c = CHR '' '' \<or> c = CHR ''_'' \<or> c = CHR 0x27 \<or> c = CHR ''-'')"

definition removeNonWord :: "string \<Rightarrow> string" where
  "removeNonWord s = filter kept s"

text \<open>The four replacements of the German normalizer, applied to one code unit.\<close>

definition germanChar :: "char \<Rightarrow> string" where
  "germanChar c =
     (if c = CHR 0xDF then ''ss'' else if c = CHR 0xE4 then ''ae''
      else if c = CHR 0xF6 then ''oe'' else if c = CHR 0xFC then ''ue'' else [c])"

definition defaultCode :: "string \<Rightarrow> string" where
  "defaultCode phrase = toLowerCase (removeNonWord (stripDiacrics (collapse (trim phrase))))"

definition germanCode :: "string \<Rightarrow> string" where
  "germanCode phrase =
     removeNonWord (stripDiacrics (concat (map germanChar (toLowerCase (collapse (trim phrase))))))"

text \<open>
  The registry \<open>normalizers\<close> has the two keys \<open>""\<close> and \<open>"German"\<close>. Any other key
  yields no normalizer: \<open>normalizers[k]\<close> is \<open>undefined\<close> (or, for a name inherited from
  \<open>Object.prototype\<close>, a value without a callable \<open>code\<close>), and the call
  \<open>normalizers[k].code(phrase)\<close> throws a TypeError.
\<close>

definition normalizers :: "string \<Rightarrow> (string \<Rightarrow> string) option" where
  "normalizers k = (if k = '''' then Some defaultCode
                    else if k = ''German'' then Some germanCode else None)"

text \<open>
  A string is tidy when it neither starts nor ends with white space and has no two
  adjacent white-space code units: what \<open>trim\<close> and \<open>collapse\<close> establish.
\<close>

fun noDouble :: "string \<Rightarrow> bool" where
  "noDouble (a # b # cs) = (\<not> (isSpace a \<and> isSpace b) \<and> noDouble (b # cs))"
| "noDouble cs = True"

definition tidy :: "string \<Rightarrow> bool" where
  "tidy s = ((s = [] \<or> (\<not> isSpace (hd s) \<and> \<not> isSpace (last s))) \<and> noDouble s)"

text \<open>
  What holds of every code unit in the result of a normalizer: the filter keeps it, it
  has no diacritic and no upper case left, and it is white space only as a space.
  \<open>settled\<close> adds that no German replacement applies to it. The predicates after them
  state, for one code unit of the input, that the normalizers produce such code units.
\<close>

definition settledD :: "char \<Rightarrow> bool" where
  "settledD c = (kept c \<and> baseChar c = c \<and> lowerChar c = c \<and> (isSpace c \<longrightarrow> c = CHR '' ''))"

definition settled :: "char \<Rightarrow> bool" where
  "settled c = (settledD c \<and> germanChar c = [c])"

definition defaultOk :: "char \<Rightarrow> bool" where
  "defaultOk c = (kept c \<longrightarrow> settledD (lowerChar c))"

definition defaultOkBase :: "char \<Rightarrow> bool" where
  "defaultOkBase c = defaultOk (baseChar c)"

definition germanOk :: "char \<Rightarrow> bool" where
  "germanOk x = (kept (baseChar x) \<longrightarrow> settled (baseChar x))"

definition germanOkLower :: "char \<Rightarrow> bool" where
  "germanOkLower y = list_all germanOk (germanChar (lowerChar y))"

section \<open>The data model\<close>

text \<open>
  The type declarations (\<open>./types\<close>) are not part of the sources; the records have the
  fields the \<open>Index\<close> class reads and writes. Primary keys are the natural numbers the
  class itself assigns. A citation's \<open>source.url\<close> is the field \<open>url\<close>, its dates
  (\<open>when\<close>) are milliseconds.
\<close>

type_synonym KeyPair = "nat \<times> nat"

record ProjectInfo =
  pk :: nat
  name :: string
  description :: string
  normalizer :: string
  relations :: "(string \<times> string) list"

record CitationRecord =
  url :: string
  whens :: "int list"

record NoteRecord =
  starred :: bool
  tags :: "string list"
  citations :: "CitationRecord list"
  relations :: "(string \<times> KeyPair list) list"

text \<open>
  A JavaScript value as it is kept in storage or on the heap: a note, the object a
  storage \<open>get\<close> answers with (its found keys and their values), or one of the
  book-keeping values the class stores (\<open>m2a\<close> of the project map, \<open>m2a\<close> of a
  phrase index, the tag list, the current project). Only a \<open>Note\<close> has the fields of
  a note: on any other value \<open>starred\<close>, \<open>tags\<close>, \<open>citations\<close> and
  \<open>relations\<close> are \<open>undefined\<close>.
\<close>

datatype jsval =
    Note NoteRecord
  | Result "(string \<times> jsval) list"
  | ProjectsV "(string \<times> ProjectInfo) list"
  | IndexV "(string \<times> nat) list"
  | TagsV "string list"
  | NumV nat

text \<open>A variable that holds \<open>undefined\<close> or a reference to an object on the heap.\<close>

datatype ref = Undefined | Ref nat

datatype error =
    TypeError
  | Unreachable
  | LastError string
  | Message string

text \<open>
  How a promise ends. \<open>Pending\<close>: it never settles (an exception thrown inside a
  storage callback is not caught by the promise).
\<close>

datatype 'a promise = Resolved 'a | Rejected error | Pending

subsection \<open>Chrome's local storage\<close>

text \<open>
  \<open>items\<close> is what the storage area holds. \<open>lastErrors\<close> scripts the environment: its
  head is the \<open>chrome.runtime.lastError\<close> the next storage call ends with (\<open>None\<close>,
  or an exhausted script, for success; a failed call changes nothing). \<open>bytesInUse\<close>
  is the figure \<open>getBytesInUse(null, ...)\<close> reports. \<open>calls\<close> logs the calls made,
  latest first.
\<close>

datatype call = Get "string list" | Set "(string \<times> jsval) list" | Remove "string list"
  | Clear | GetBytesInUse

record Chrome =
  items :: "(string \<times> jsval) list"
  lastErrors :: "string option list"
  bytesInUse :: nat
  calls :: "call list"

definition nextError :: "Chrome \<Rightarrow> string option" where
  "nextError c = (case lastErrors c of [] \<Rightarrow> None | e # es \<Rightarrow> e)"

definition called :: "call \<Rightarrow> Chrome \<Rightarrow> Chrome" where
  "called k c = c\<lparr>lastErrors := tl (lastErrors c), calls := k # calls c\<rparr>"

text \<open>
  \<open>storage.local.get(keys, callback)\<close>: the callback receives an object with the keys
  that are stored (here in the order asked for, each once).
\<close>

definition storageGet :: "string list \<Rightarrow> Chrome \<Rightarrow> (string + (string \<times> jsval) list) \<times> Chrome" where
  "storageGet keys c =
     (case nextError c of
        Some e \<Rightarrow> (Inl e, called (Get keys) c)
      | None \<Rightarrow> (Inr (List.map_filter (\<lambda>k. map_option (Pair k) (map_of (items c) k)) (remdups keys)),
                 called (Get keys) c))"

definition storageSet :: "(string \<times> jsval) list \<Rightarrow> Chrome \<Rightarrow> string option \<times> Chrome" where
  "storageSet kvs c =
     (case nextError c of
        Some e \<Rightarrow> (Some e, called (Set kvs) c)
      | None \<Rightarrow> (None, (called (Set kvs) c)\<lparr>items := fold (\<lambda>(k, v). AList.update k v) kvs (items c)\<rparr>))"

definition storageRemove :: "string list \<Rightarrow> Chrome \<Rightarrow> string option \<times> Chrome" where
  "storageRemove keys c =
     (case nextError c of
        Some e \<Rightarrow> (Some e, called (Remove keys) c)
      | None \<Rightarrow> (None, (called (Remove keys) c)\<lparr>items := fold AList.delete keys (items c)\<rparr>))"

definition storageClear :: "Chrome \<Rightarrow> string option \<times> Chrome" where
  "storageClear c =
     (case nextError c of
        Some e \<Rightarrow> (Some e, called Clear c)
      | None \<Rightarrow> (None, (called Clear c)\<lparr>items := []\<rparr>))"

definition getBytesInUse :: "Chrome \<Rightarrow> (string + nat) \<times> Chrome" where
  "getBytesInUse c =
     (case nextError c of
        Some e \<Rightarrow> (Inl e, called GetBytesInUse c)
      | None \<Rightarrow> (Inr (bytesInUse c), called GetBytesInUse c))"

subsection \<open>The state of an \<open>Index\<close>\<close>

text \<open>
  The fields of the class, a JavaScript \<open>Map\<close> or \<open>Set\<close> as the list of its entries in
  insertion order, and the heap of the note objects the cache and the callers share:
  the cache holds references, so that a note changed in place is changed for everyone
  who holds it.
\<close>

record Index =
  chrome :: Chrome
  projects :: "(string \<times> ProjectInfo) list"
  currentProject :: nat
  projectIndices :: "(nat \<times> (string \<times> nat) list) list"
  tags :: "string list"
  reverseProjectIndex :: "(nat \<times> string) list"
  cache :: "(string \<times> ref) list"
  heap :: "jsval list"

datatype ProjectIdentifier = ByName string | ByPk nat | ByInfo ProjectInfo

section \<open>The operations\<close>

definition makeDefaultProject :: ProjectInfo where
  "makeDefaultProject =
     \<lparr>pk = 0, name = '''', description = ''A project for notes that have no project.'',
      normalizer = '''', ProjectInfo.relations = [(''see also'', ''see also'')]\<rparr>"

text \<open>\<open>this.projects.get('')\<close> is \<open>undefined\<close> when no project has the empty name.\<close>

definition defaultProject :: "Index \<Rightarrow> string \<times> ProjectInfo option" where
  "defaultProject st = ('''', map_of (projects st) '''')"

text \<open>The test \<open>if (r)\<close> on a project name fails for the empty name.\<close>

definition findProject :: "Index \<Rightarrow> ProjectIdentifier \<Rightarrow> string \<times> ProjectInfo option" where
  "findProject st project =
     (case project of
        ByPk n \<Rightarrow>
          (case map_of (reverseProjectIndex st) n of
             None \<Rightarrow> defaultProject st
           | Some r \<Rightarrow>
               if r = '''' then defaultProject st
               else (case map_of (projects st) r of
                       Some ri \<Rightarrow> (r, Some ri)
                     | None \<Rightarrow> defaultProject st))
      | ByName n \<Rightarrow>
          (case map_of (projects st) n of
             Some ri \<Rightarrow> (n, Some ri)
           | None \<Rightarrow> defaultProject st)
      | ByInfo projectInfo \<Rightarrow>
          (case map_of (reverseProjectIndex st) (pk projectInfo) of
             None \<Rightarrow> defaultProject st
           | Some r \<Rightarrow> if r = '''' then defaultProject st else (r, Some projectInfo)))"

text \<open>
  \<open>normalize(phrase, project)\<close>: a \<open>ProjectInfo\<close> is taken as it is, a name or key
  is resolved; no project information means the default normalizer; a normalizer key
  the registry does not have makes the call throw.
\<close>

definition normalize :: "Index \<Rightarrow> string \<Rightarrow> ProjectIdentifier \<Rightarrow> error + string" where
  "normalize st phrase project =
     (let r = (case project of ByInfo projectInfo \<Rightarrow> Some projectInfo
                             | _ \<Rightarrow> snd (findProject st project));
          key = (case r of Some info \<Rightarrow> ProjectInfo.normalizer info | None \<Rightarrow> '''')
      in case normalizers key of
           Some code \<Rightarrow> Inr (code phrase)
         | None \<Rightarrow> Inl TypeError)"

text \<open>
  The numbers of the program are IEEE 754 doubles. A double holds every integer of
  magnitude up to 2^53 = 9007199254740992 and, above that, the integers whose 53 leading
  bits are followed by zeros only; the result of an addition or subtraction is the
  exact result rounded to the nearest such value, a tie going to the one with an even
  significand. \<open>excess n\<close> is the number of bits a non-negative \<open>n\<close> has beyond 53, and
  \<open>roundDouble x\<close> the double nearest to the integer \<open>x\<close> (which is finite when
  \<open>x\<close> lies between two finite doubles).
\<close>

function excess :: "int \<Rightarrow> nat" where
  "excess n = (if n < 9007199254740992 then 0 else Suc (excess (n div 2)))"
  by pat_completeness auto
termination
  by (relation "measure nat") auto

declare excess.simps [simp del]

definition roundDouble :: "int \<Rightarrow> int" where
  "roundDouble x =
     (let n = \<bar>x\<bar>;
          e = excess n;
          q = n div 2 ^ e;
          r = n mod 2 ^ e;
          q' = (if 2 * r > 2 ^ e \<or> (2 * r = 2 ^ e \<and> odd q) then q + 1 else q)
      in sgn x * (q' * 2 ^ e))"

text \<open>
  \<open>memfree()\<close>: the promise of the bytes left, \<open>5242880 - bytes\<close> as a subtraction of
  doubles. \<open>bytes\<close> is the number the storage reports: an integer that a double holds.
\<close>

definition memfree :: "Index \<Rightarrow> int promise \<times> Index" where
  "memfree st =
     (case getBytesInUse (chrome st) of
        (Inl e, c) \<Rightarrow> (Rejected (LastError e), st\<lparr>chrome := c\<rparr>)
      | (Inr bytes, c) \<Rightarrow> (Resolved (roundDouble (5242880 - int bytes)), st\<lparr>chrome := c\<rparr>))"

text \<open>
  The constructor. An empty \<open>projectIndices\<close> means a fresh store: the default project
  is added and the project map saved (the result of that \<open>set\<close> is not looked at). The
  maps passed in are lists of entries with distinct keys.
\<close>

definition newIndex ::
  "Chrome \<Rightarrow> (string \<times> ProjectInfo) list \<Rightarrow> nat \<Rightarrow> (nat \<times> (string \<times> nat) list) list
     \<Rightarrow> string list \<Rightarrow> Index" where
  "newIndex chrome0 projects0 currentProject0 projectIndices0 tags0 =
     (let (ps, ixs, c) =
            (if projectIndices0 = [] then
               (let project = makeDefaultProject;
                    ps = AList.update (name project) project projects0
                in (ps, AList.update (pk project) [] projectIndices0,
                    snd (storageSet [(''projects'', ProjectsV ps)] chrome0)))
             else (projects0, projectIndices0, chrome0))
      in \<lparr>chrome = c, projects = ps, currentProject = currentProject0, projectIndices = ixs,
          tags = tags0,
          reverseProjectIndex = fold (\<lambda>(key, value). AList.update (pk value) key) ps [],
          cache = [], heap = []\<rparr>)"

text \<open>A number in a template string: its decimal digits.\<close>

fun showNat :: "nat \<Rightarrow> string" where
  "showNat n = (if n < 10 then [char_of (48 + n)] else showNat (n div 10) @ [char_of (48 + n mod 10)])"

declare showNat.simps [simp del]

definition enkey :: "KeyPair \<Rightarrow> string" where
  "enkey p = showNat (fst p) @ '':'' @ showNat (snd p)"

text \<open>
  \<open>reverseRelation(project, relation)\<close>. The loop is \<open>for (const pair in
  projectInfo.relations)\<close>: \<open>in\<close> runs over the property names of the array, the strings
  \<open>"0"\<close>, \<open>"1"\<close>, ..., so that \<open>pair[0]\<close> and \<open>pair[1]\<close> are the first and second
  character of an index (\<open>undefined\<close> where the string is shorter). The result is a
  string, \<open>null\<close> or \<open>undefined\<close>.
\<close>

datatype relname = Null | Undef | Name string

definition charAt :: "string \<Rightarrow> nat \<Rightarrow> string option" where
  "charAt s i = (if i < length s then Some [s ! i] else None)"

fun reverseRelationLoop :: "string list \<Rightarrow> string \<Rightarrow> relname" where
  "reverseRelationLoop [] relation = Null"
| "reverseRelationLoop (pair # pairs) relation =
     (if charAt pair 0 = Some relation then (case charAt pair 1 of Some c \<Rightarrow> Name c | None \<Rightarrow> Undef)
      else if charAt pair 1 = Some relation then (case charAt pair 0 of Some c \<Rightarrow> Name c | None \<Rightarrow> Undef)
      else reverseRelationLoop pairs relation)"

definition reverseRelation :: "Index \<Rightarrow> ProjectIdentifier \<Rightarrow> string \<Rightarrow> error + relname" where
  "reverseRelation st project relation =
     (case snd (findProject st project) of
        None \<Rightarrow> Inl TypeError
      | Some projectInfo \<Rightarrow>
          Inr (reverseRelationLoop
                 (map showNat [0..<length (ProjectInfo.relations projectInfo)]) relation))"

text \<open>An empty storage area that reports \<open>b\<close> bytes in use, and the index built on it.\<close>

definition emptyChrome :: "nat \<Rightarrow> Chrome" where
  "emptyChrome b = \<lparr>items = [], lastErrors = [], bytesInUse = b, calls = []\<rparr>"

definition freshIndex :: Index where
  "freshIndex = newIndex (emptyChrome 0) [] 0 [] []"

subsection \<open>Objects, the cache, and what is queued for storage\<close>

text \<open>
  An object is made by appending it to the heap; its address is its position.
  \<open>deepClone\<close> (\<open>./clone\<close>) is not part of the sources. Modelled from the spec:
  it returns a fresh deep copy of its argument (and \<open>undefined\<close> for \<open>undefined\<close>).
\<close>

definition alloc :: "jsval \<Rightarrow> Index \<Rightarrow> nat \<times> Index" where
  "alloc v st = (length (heap st), st\<lparr>heap := heap st @ [v]\<rparr>)"

definition deref :: "Index \<Rightarrow> ref \<Rightarrow> jsval option" where
  "deref st r =
     (case r of
        Undefined \<Rightarrow> None
      | Ref a \<Rightarrow> if a < length (heap st) then Some (heap st ! a) else None)"

definition deepClone :: "ref \<Rightarrow> Index \<Rightarrow> ref \<times> Index" where
  "deepClone r st =
     (case deref st r of
        None \<Rightarrow> (Undefined, st)
      | Some v \<Rightarrow> (case alloc v st of (a, st') \<Rightarrow> (Ref a, st')))"

definition cacheGet :: "Index \<Rightarrow> string \<Rightarrow> ref" where
  "cacheGet st key = (case map_of (cache st) key of Some r \<Rightarrow> r | None \<Rightarrow> Undefined)"

definition cacheSet :: "string \<Rightarrow> ref \<Rightarrow> Index \<Rightarrow> Index" where
  "cacheSet key r st = st\<lparr>cache := AList.update key r (cache st)\<rparr>"

text \<open>The tests \<open>if (note)\<close>: an object is truthy, \<open>undefined\<close> and the number 0 are not.\<close>

fun truthy :: "jsval \<Rightarrow> bool" where
  "truthy (NumV n) = (n \<noteq> 0)"
| "truthy v = True"

definition cached :: "Index \<Rightarrow> string \<Rightarrow> (nat \<times> jsval) option" where
  "cached st key =
     (case cacheGet st key of
        Undefined \<Rightarrow> None
      | Ref a \<Rightarrow> (case deref st (Ref a) of
                    Some v \<Rightarrow> if truthy v then Some (a, v) else None
                  | None \<Rightarrow> None))"

text \<open>
  The object \<open>storable\<close> handed to \<open>storage.local.set\<close>: under each key a value built on
  the spot, or a reference to a note, which is serialised as the note is when \<open>set\<close> is
  called (a reference is only queued after it was dereferenced).
\<close>

datatype pending = Val jsval | Obj nat

definition serialise :: "Index \<Rightarrow> (string \<times> pending) list \<Rightarrow> (string \<times> jsval) list" where
  "serialise st storable =
     List.map_filter
       (\<lambda>(k, p). case p of Val v \<Rightarrow> Some (k, v)
                          | Obj a \<Rightarrow> map_option (Pair k) (deref st (Ref a)))
       storable"

text \<open>A loop whose body may throw: it stops at the first exception and keeps the state.\<close>

fun forEach :: "('a \<Rightarrow> 's \<Rightarrow> error option \<times> 's) \<Rightarrow> 'a list \<Rightarrow> 's \<Rightarrow> error option \<times> 's" where
  "forEach f [] s = (None, s)"
| "forEach f (x # xs) s =
     (case f x s of
        (Some e, s') \<Rightarrow> (Some e, s')
      | (None, s') \<Rightarrow> forEach f xs s')"

text \<open>
  An exception inside the promise's executor rejects the promise; inside a storage
  callback it leaves the promise pending.
\<close>

datatype frame = Executor | Callback

definition thrown :: "frame \<Rightarrow> error \<Rightarrow> 'a promise" where
  "thrown ctx e = (case ctx of Executor \<Rightarrow> Rejected e | Callback \<Rightarrow> Pending)"

subsection \<open>\<open>projectIndex\<close> and \<open>allProjects\<close>\<close>

definition allProjects :: "Index \<Rightarrow> nat list" where
  "allProjects st = map fst (projectIndices st)"

definition projectIndex :: "Index \<Rightarrow> string \<Rightarrow> ProjectIdentifier \<Rightarrow> error + nat option" where
  "projectIndex st phrase project =
     (case snd (findProject st project) of
        None \<Rightarrow> Inl TypeError
      | Some projectInfo \<Rightarrow>
          (case map_of (projectIndices st) (pk projectInfo) of
             None \<Rightarrow> Inl TypeError
           | Some idx \<Rightarrow>
               (case normalize st phrase (ByInfo projectInfo) of
                  Inl e \<Rightarrow> Inl e
                | Inr k \<Rightarrow> Inr (map_of idx k))))"

subsection \<open>\<open>add\<close>\<close>

text \<open>The next primary key of a phrase index: one more than the largest in use.\<close>

definition nextPk :: "(string \<times> nat) list \<Rightarrow> nat" where
  "nextPk phraseIndex = fold (\<lambda>(k, v) n. if v \<ge> n then v + 1 else n) phraseIndex 0"

definition addTags :: "string list \<Rightarrow> string list \<Rightarrow> string list" where
  "addTags new old = fold (\<lambda>tag ts. if tag \<in> set ts then ts else ts @ [tag]) new old"

text \<open>
  \<open>reversedRelation ||= this.reverseRelation(projectInfo, relation) || ''\<close>: asked once
  per relation, and anything but a non-empty string counts as \<open>''\<close>.
\<close>

definition reversedOr :: "Index \<Rightarrow> ProjectInfo \<Rightarrow> string \<Rightarrow> string \<Rightarrow> error + string" where
  "reversedOr st projectInfo relation reversedRelation =
     (if reversedRelation \<noteq> [] then Inr reversedRelation
      else (case reverseRelation st (ByInfo projectInfo) relation of
              Inl e \<Rightarrow> Inl e
            | Inr (Name s) \<Rightarrow> Inr s
            | Inr _ \<Rightarrow> Inr []))"

text \<open>
  The body of the loop over the pairs of one relation of the note being added. The note
  at the other end is changed only if it is cached and already has a list under the
  reversed relation that lacks the key of the added note: then the key is appended in
  place and the note is queued.
\<close>

definition mirror ::
  "ProjectInfo \<Rightarrow> KeyPair \<Rightarrow> string \<Rightarrow> KeyPair
     \<Rightarrow> Index \<times> string \<times> (string \<times> pending) list
     \<Rightarrow> error option \<times> Index \<times> string \<times> (string \<times> pending) list" where
  "mirror projectInfo keyPair relation pair s =
     (case s of (st, reversedRelation, storable) \<Rightarrow>
        (case cached st (enkey pair) of
           None \<Rightarrow> (None, s)
         | Some (a, other) \<Rightarrow>
             (case reversedOr st projectInfo relation reversedRelation of
                Inl e \<Rightarrow> (Some e, s)
              | Inr rr \<Rightarrow>
                  (case other of
                     Note n \<Rightarrow>
                       (case map_of (NoteRecord.relations n) rr of
                          None \<Rightarrow> (None, st, rr, storable)
                        | Some pairs2 \<Rightarrow>
                            if keyPair \<in> set pairs2 then (None, st, rr, storable)
                            else (None,
                                  st\<lparr>heap := (heap st)[a := Note (n\<lparr>NoteRecord.relations :=
                                         AList.update rr (pairs2 @ [keyPair]) (NoteRecord.relations n)\<rparr>)]\<rparr>,
                                  rr, AList.update (enkey pair) (Obj a) storable))
                   | _ \<Rightarrow> (Some TypeError, st, rr, storable)))))"

text \<open>
  The loop over the relations of the added note, each with a fresh \<open>reversedRelation\<close>.
  The entries are those the note has when the loop starts.
\<close>

definition mirrorAll ::
  "ProjectInfo \<Rightarrow> KeyPair \<Rightarrow> (string \<times> KeyPair list)
     \<Rightarrow> Index \<times> (string \<times> pending) list \<Rightarrow> error option \<times> Index \<times> (string \<times> pending) list" where
  "mirrorAll projectInfo keyPair entry s =
     (case entry of (relation, pairs) \<Rightarrow>
        (case s of (st, storable) \<Rightarrow>
           (case forEach (mirror projectInfo keyPair relation) pairs (st, [], storable) of
              (e, st', _, storable') \<Rightarrow> (e, st', storable'))))"

text \<open>
  The primary key of the normalized phrase in the project's phrase index: the one it
  has, or a new one, with the index updated (in the class, if it is registered there)
  and queued for storage.
\<close>

definition indexPhrase ::
  "Index \<Rightarrow> ProjectInfo \<Rightarrow> string \<Rightarrow> nat \<times> Index \<times> (string \<times> pending) list" where
  "indexPhrase st projectInfo key =
     (let registered = map_of (projectIndices st) (pk projectInfo);
          phraseIndex = (case registered of Some ix \<Rightarrow> ix | None \<Rightarrow> [])
      in case map_of phraseIndex key of
           Some n \<Rightarrow> (n, st, [])
         | None \<Rightarrow>
             (let n = nextPk phraseIndex;
                  phraseIndex' = phraseIndex @ [(key, n)]
              in (n,
                  (if registered = None then st
                   else st\<lparr>projectIndices :=
                          AList.update (pk projectInfo) phraseIndex' (projectIndices st)\<rparr>),
                  [(showNat (pk projectInfo), Val (IndexV phraseIndex'))])))"

text \<open>
  \<open>add({phrase, project, data})\<close>; \<open>data\<close> is the address of the caller's note object,
  which becomes the cached object.
\<close>

definition add :: "Index \<Rightarrow> string \<Rightarrow> nat \<Rightarrow> nat \<Rightarrow> unit promise \<times> Index" where
  "add st phrase project data =
     (case snd (findProject st (ByPk project)) of
        None \<Rightarrow> (Rejected Unreachable, st)
      | Some projectInfo \<Rightarrow>
          (case normalize st phrase (ByInfo projectInfo) of
             Inl e \<Rightarrow> (Rejected e, st)
           | Inr key \<Rightarrow>
               (case indexPhrase st projectInfo key of
                  (notePk, st1, storable1) \<Rightarrow>
                    (let keyPair = (pk projectInfo, notePk);
                         st2 = cacheSet (enkey keyPair) (Ref data) st1
                     in case deref st2 (Ref data) of
                          Some (Note d) \<Rightarrow>
                            (let tags' = addTags (NoteRecord.tags d) (tags st2);
                                 storable2 = (if length tags' > length (tags st2)
                                              then AList.update ''tags'' (Val (TagsV tags')) storable1
                                              else storable1);
                                 st3 = st2\<lparr>tags := tags'\<rparr>
                             in case forEach (mirrorAll projectInfo keyPair) (NoteRecord.relations d)
                                       (st3, storable2) of
                                  (Some e, st4, storable3) \<Rightarrow> (Rejected e, st4)
                                | (None, st4, storable3) \<Rightarrow>
                                    (case storageSet
                                            (serialise st4
                                               (AList.update (enkey keyPair) (Obj data) storable3))
                                            (chrome st4) of
                                       (Some e, c) \<Rightarrow> (Rejected (LastError e), st4\<lparr>chrome := c\<rparr>)
                                     | (None, c) \<Rightarrow> (Resolved (), st4\<lparr>chrome := c\<rparr>)))
                        | _ \<Rightarrow> (Rejected TypeError, st2)))))"

subsection \<open>\<open>find\<close>\<close>

text \<open>
  The two shapes of a query. The fields of an ad hoc query are optional (\<open>None\<close>: not
  given; the field \<open>phrase\<close> of the query is \<open>q_phrase\<close>, and so on); \<open>q_project\<close> is the
  list of projects to search. A match pairs a project with the note found, as a
  reference.
\<close>

datatype strictness = Exact | Substring | Fuzzy

record AdHoc =
  q_phrase :: "string option"
  q_strictness :: "strictness option"
  q_project :: "nat list option"
  q_starred :: "bool option"
  q_tagRequired :: "string list option"
  q_tagForbidden :: "string list option"
  q_url :: "string option"
  q_before :: "int option"
  q_after :: "int option"

datatype Query = Lookup string "nat option" | AdHocQuery AdHoc

type_synonym Match = "nat \<times> ref"

text \<open>\<open>FoundUndefined\<close> is \<open>{state: "found", match: undefined}\<close>, \<open>NoMatch\<close> is \<open>{state: "none"}\<close>.\<close>

datatype FindResponse = Found Match | FoundUndefined | Ambiguous "Match list" | NoMatch

text \<open>The keys of the phrase in the projects searched; \<open>projectIndex\<close> may throw.\<close>

fun lookupKeys :: "Index \<Rightarrow> string \<Rightarrow> nat list \<Rightarrow> error + KeyPair list" where
  "lookupKeys st phrase [] = Inr []"
| "lookupKeys st phrase (p # ps) =
     (case projectIndex st phrase (ByPk p) of
        Inl e \<Rightarrow> Inl e
      | Inr i \<Rightarrow>
          (case lookupKeys st phrase ps of
             Inl e \<Rightarrow> Inl e
           | Inr keys \<Rightarrow> Inr (case i of None \<Rightarrow> keys | Some n \<Rightarrow> (p, n) # keys)))"

text \<open>
  What the callback of \<open>get\<close> does with the keys that were not cached, in order: the
  note read is a fresh object, a deep copy of it goes into the cache, the note itself
  into the result. A key the storage does not have gives \<open>undefined\<close>.
\<close>

fun fetched :: "(string \<times> jsval) list \<Rightarrow> KeyPair list \<Rightarrow> Index \<Rightarrow> Match list \<times> Index" where
  "fetched found [] st = ([], st)"
| "fetched found (k # ks) st =
     (let (note, st1) = (case map_of found (enkey k) of
                           None \<Rightarrow> (Undefined, st)
                         | Some v \<Rightarrow> (case alloc v st of (a, st') \<Rightarrow> (Ref a, st')));
          (copy, st2) = deepClone note st1;
          st3 = cacheSet (enkey k) copy st2;
          (rv, st4) = fetched found ks st3
      in ((fst k, note) # rv, st4))"

definition lookupContinuation :: "Match list \<Rightarrow> FindResponse" where
  "lookupContinuation rv =
     (if length rv > 1 then Ambiguous rv
      else (case rv of [] \<Rightarrow> FoundUndefined | m # _ \<Rightarrow> Found m))"

definition findLookup :: "Index \<Rightarrow> string \<Rightarrow> nat option \<Rightarrow> FindResponse promise \<times> Index" where
  "findLookup st phrase project =
     (case lookupKeys st phrase (case project of None \<Rightarrow> allProjects st | Some p \<Rightarrow> [p]) of
        Inl e \<Rightarrow> (Rejected e, st)
      | Inr keys \<Rightarrow>
          if keys = [] then (Resolved NoMatch, st)
          else
            (let hits = map (\<lambda>k. (fst k, cacheGet st (enkey k)))
                          (filter (\<lambda>k. cacheGet st (enkey k) \<noteq> Undefined) (rev keys));
                 misses = filter (\<lambda>k. cacheGet st (enkey k) = Undefined) keys
             in if misses = [] then (Resolved (lookupContinuation hits), st)
                else (case storageGet (map enkey misses) (chrome st) of
                        (Inl e, c) \<Rightarrow> (Rejected (LastError e), st\<lparr>chrome := c\<rparr>)
                      | (Inr found, c) \<Rightarrow>
                          (case fetched found misses (st\<lparr>chrome := c\<rparr>) of
                             (rv, st') \<Rightarrow> (Resolved (lookupContinuation (hits @ rv)), st')))))"

text \<open>
  The fuzzy matcher is the regular expression made of the characters of the key, each
  escaped (so each stands for itself), joined by \<open>.*?\<close>; \<open>.\<close> matches anything but a
  line terminator. \<open>test\<close> looks for a match anywhere in the string.
\<close>

definition isLineTerminator :: "char \<Rightarrow> bool" where
  "isLineTerminator c = (codeUnit c \<in> {0x0A, 0x0D})"

fun fuzzyRest :: "string \<Rightarrow> string \<Rightarrow> bool" where
  "fuzzyRest [] s = True"
| "fuzzyRest (c # cs) [] = False"
| "fuzzyRest (c # cs) (x # xs) =
     ((x = c \<and> fuzzyRest cs xs) \<or> (\<not> isLineTerminator x \<and> fuzzyRest (c # cs) xs))"

fun fuzzyTest :: "string \<Rightarrow> string \<Rightarrow> bool" where
  "fuzzyTest [] s = True"
| "fuzzyTest (c # cs) [] = False"
| "fuzzyTest (c # cs) (x # xs) = ((x = c \<and> fuzzyRest cs xs) \<or> fuzzyTest (c # cs) xs)"

text \<open>\<open>s.indexOf(sub) == -1\<close> is the negation of \<open>contains s sub\<close>.\<close>

fun contains :: "string \<Rightarrow> string \<Rightarrow> bool" where
  "contains [] sub = (sub = [])"
| "contains (x # xs) sub = (take (length sub) (x # xs) = sub \<or> contains xs sub)"

text \<open>
  \<open>Number.parseInt(key.split(":")[0])\<close> on a key \<open>`${pk}:${i}`\<close>: the number its
  leading digits spell (a key that does not start with a digit, which would give
  \<open>NaN\<close>, is never asked for).
\<close>

definition isDigit :: "char \<Rightarrow> bool" where
  "isDigit c = (0x30 \<le> codeUnit c \<and> codeUnit c \<le> 0x39)"

definition parseInt :: "string \<Rightarrow> nat" where
  "parseInt s = foldl (\<lambda>n c. 10 * n + nat (codeUnit c - 0x30)) 0 (takeWhile isDigit s)"

text \<open>
  The filter of the ad hoc search on one candidate. Without \<open>starred\<close> in the query
  the function returns nothing, which \<open>filter\<close> takes as false. Reading \<open>tags\<close> or
  \<open>citations\<close> of a value that is not a note throws.
\<close>

definition keeps :: "AdHoc \<Rightarrow> jsval option \<Rightarrow> error + bool" where
  "keeps q v =
     (case v of
        None \<Rightarrow> Inl TypeError
      | Some w \<Rightarrow>
     (case q_starred q of
        None \<Rightarrow> Inr False
      | Some s \<Rightarrow>
          (let note = (case w of Note n \<Rightarrow> Some n | _ \<Rightarrow> None);
               noteStarred = (case note of Some n \<Rightarrow> NoteRecord.starred n | None \<Rightarrow> False);
               required = (case q_tagRequired q of Some ts \<Rightarrow> ts | None \<Rightarrow> []);
               forbidden = (case q_tagForbidden q of Some ts \<Rightarrow> ts | None \<Rightarrow> [])
           in if s \<noteq> noteStarred then Inr False
              else (case note of
                      None \<Rightarrow>
                        if required \<noteq> [] \<or> forbidden \<noteq> [] \<or> q_url q \<noteq> None
                           \<or> q_before q \<noteq> None \<or> q_after q \<noteq> None
                        then Inl TypeError else Inr True
                    | Some n \<Rightarrow>
                        if \<exists>t\<in>set required. t \<notin> set (NoteRecord.tags n) then Inr False
                        else if \<exists>t\<in>set forbidden. t \<in> set (NoteRecord.tags n) then Inr False
                        else if (case q_url q of None \<Rightarrow> False
                                 | Some u \<Rightarrow> \<forall>c\<in>set (citations n). \<not> contains (CitationRecord.url c) u)
                        then Inr False
                        else if (case q_before q of None \<Rightarrow> False
                                 | Some b \<Rightarrow> \<forall>c\<in>set (citations n). \<forall>w\<in>set (whens c). w > b)
                        then Inr False
                        else if (case q_after q of None \<Rightarrow> False
                                 | Some a \<Rightarrow> \<forall>c\<in>set (citations n). \<forall>w\<in>set (whens c). w < a)
                        then Inr False
                        else Inr True))))"

fun filterCandidates :: "AdHoc \<Rightarrow> Index \<Rightarrow> Match list \<Rightarrow> error + Match list" where
  "filterCandidates q st [] = Inr []"
| "filterCandidates q st (m # ms) =
     (case keeps q (deref st (snd m)) of
        Inl e \<Rightarrow> Inl e
      | Inr b \<Rightarrow>
          (case filterCandidates q st ms of
             Inl e \<Rightarrow> Inl e
           | Inr rest \<Rightarrow> Inr (if b then m # rest else rest)))"

definition adHocContinuation :: "frame \<Rightarrow> AdHoc \<Rightarrow> Index \<Rightarrow> Match list \<Rightarrow> FindResponse promise" where
  "adHocContinuation ctx q st candidates =
     (case filterCandidates q st candidates of
        Inl e \<Rightarrow> thrown ctx e
      | Inr [] \<Rightarrow> Resolved NoMatch
      | Inr [m] \<Rightarrow> Resolved (Found m)
      | Inr ms \<Rightarrow> Resolved (Ambiguous ms))"

text \<open>
  \<open>normalized\<close>: the normalized query phrase of each project searched (a \<open>Map\<close>).
\<close>

fun normalizedMap :: "Index \<Rightarrow> string \<Rightarrow> nat list \<Rightarrow> error + (nat \<times> string) list" where
  "normalizedMap st phrase [] = Inr []"
| "normalizedMap st phrase (p # ps) =
     (case normalize st phrase (ByPk p) of
        Inl e \<Rightarrow> Inl e
      | Inr key \<Rightarrow>
          (case normalizedMap st phrase ps of
             Inl e \<Rightarrow> Inl e
           | Inr m \<Rightarrow> Inr ((p, key) # AList.delete p m)))"

text \<open>
  One candidate key: the cached note goes to the candidates, a key that is not cached
  to the list to look up.
\<close>

definition candidate :: "Index \<Rightarrow> KeyPair \<Rightarrow> Match list \<times> string list \<Rightarrow> Match list \<times> string list" where
  "candidate st k acc =
     (case cached st (enkey k) of
        Some (a, v) \<Rightarrow> (fst acc @ [(fst k, Ref a)], snd acc)
      | None \<Rightarrow> (fst acc, snd acc @ [enkey k]))"

text \<open>With an exact phrase the keys are looked up directly in the phrase indices.\<close>

fun exactCandidates ::
  "Index \<Rightarrow> (nat \<times> string) list \<Rightarrow> Match list \<times> string list \<Rightarrow> error + Match list \<times> string list" where
  "exactCandidates st [] acc = Inr acc"
| "exactCandidates st ((p, key) # rest) acc =
     (case map_of (projectIndices st) p of
        None \<Rightarrow> Inl TypeError
      | Some ix \<Rightarrow>
          exactCandidates st rest
            (case map_of ix key of None \<Rightarrow> acc | Some i \<Rightarrow> candidate st (p, i) acc))"

text \<open>Otherwise every entry of the phrase indices is a candidate the phrase does not exclude.\<close>

definition phraseAdmits :: "AdHoc \<Rightarrow> (nat \<times> string) list \<Rightarrow> nat \<Rightarrow> string \<Rightarrow> bool" where
  "phraseAdmits q normalized p normed =
     (case q_phrase q of
        None \<Rightarrow> True
      | Some ph \<Rightarrow>
          if ph = [] then True
          else if q_strictness q = Some Substring then
            (case map_of normalized p of
               None \<Rightarrow> True
             | Some norm \<Rightarrow> norm = [] \<or> contains normed norm)
          else (case map_of normalized p of
                  None \<Rightarrow> False
                | Some norm \<Rightarrow> fuzzyTest norm normed))"

definition scanCandidates ::
  "AdHoc \<Rightarrow> Index \<Rightarrow> (nat \<times> string) list \<Rightarrow> nat list \<Rightarrow> Match list \<times> string list" where
  "scanCandidates q st normalized ps =
     fold (\<lambda>p acc.
             fold (\<lambda>(normed, i) acc'.
                     if phraseAdmits q normalized p normed then candidate st (p, i) acc' else acc')
                  (case map_of (projectIndices st) p of Some ix \<Rightarrow> ix | None \<Rightarrow> [])
                  acc)
          ps ([], [])"

text \<open>The notes read from storage become candidates; they are not put into the cache.\<close>

fun lookedUp :: "(string \<times> jsval) list \<Rightarrow> Index \<Rightarrow> Match list \<times> Index" where
  "lookedUp [] st = ([], st)"
| "lookedUp ((key, note) # found) st =
     (case alloc note st of
        (a, st1) \<Rightarrow>
          (case lookedUp found st1 of
             (ms, st2) \<Rightarrow> ((parseInt key, Ref a) # ms, st2)))"

text \<open>
  \<open>requirements\<close> is the query without its \<open>type\<close>. The test \<open>if
  (Object.keys(requirements))\<close> is on an array, and an array, empty or not, is truthy.
\<close>

definition objectKeys :: "AdHoc \<Rightarrow> string list" where
  "objectKeys q =
     (if q_phrase q \<noteq> None then [''phrase''] else []) @
     (if q_strictness q \<noteq> None then [''strictness''] else []) @
     (if q_project q \<noteq> None then [''project''] else []) @
     (if q_starred q \<noteq> None then [''starred''] else []) @
     (if q_tagRequired q \<noteq> None then [''tagRequired''] else []) @
     (if q_tagForbidden q \<noteq> None then [''tagForbidden''] else []) @
     (if q_url q \<noteq> None then [''url''] else []) @
     (if q_before q \<noteq> None then [''before''] else []) @
     (if q_after q \<noteq> None then [''after''] else [])"

definition truthyArray :: "'a list \<Rightarrow> bool" where
  "truthyArray xs = True"

definition findAdHoc :: "Index \<Rightarrow> AdHoc \<Rightarrow> FindResponse promise \<times> Index" where
  "findAdHoc st q =
     (if truthyArray (objectKeys q) then
        (let ps = (case q_project q of None \<Rightarrow> allProjects st | Some ps \<Rightarrow> ps)
         in case (case q_phrase q of None \<Rightarrow> Inr [] | Some ph \<Rightarrow> normalizedMap st ph ps) of
              Inl e \<Rightarrow> (Rejected e, st)
            | Inr normalized \<Rightarrow>
                (case (if q_phrase q \<noteq> None \<and> q_strictness q = Some Exact
                       then exactCandidates st normalized ([], [])
                       else Inr (scanCandidates q st normalized ps)) of
                   Inl e \<Rightarrow> (Rejected e, st)
                 | Inr (candidates, toLookUp) \<Rightarrow>
                     if toLookUp = [] then (adHocContinuation Executor q st candidates, st)
                     else (case storageGet toLookUp (chrome st) of
                             (Inl e, c) \<Rightarrow> (Rejected (LastError e), st\<lparr>chrome := c\<rparr>)
                           | (Inr found, c) \<Rightarrow>
                               (case lookedUp found (st\<lparr>chrome := c\<rparr>) of
                                  (ms, st') \<Rightarrow>
                                    (adHocContinuation Callback q st' (candidates @ ms), st')))))
      else (Resolved NoMatch, st))"

definition find :: "Index \<Rightarrow> Query \<Rightarrow> FindResponse promise \<times> Index" where
  "find st query =
     (case query of
        Lookup phrase project \<Rightarrow> findLookup st phrase project
      | AdHocQuery q \<Rightarrow> findAdHoc st q)"

subsection \<open>\<open>deleteRelation\<close>\<close>

text \<open>
  \<open>obj.relations[r] = ps\<close> when \<open>ps\<close> is not empty, \<open>delete obj.relations[r]\<close> when it is.
\<close>

definition setOrDelete :: "string \<Rightarrow> KeyPair list \<Rightarrow> NoteRecord \<Rightarrow> NoteRecord" where
  "setOrDelete r ps n =
     n\<lparr>NoteRecord.relations :=
         (if ps \<noteq> [] then AList.update r ps (NoteRecord.relations n)
          else AList.delete r (NoteRecord.relations n))\<rparr>"

definition relationList :: "NoteRecord \<Rightarrow> string \<Rightarrow> KeyPair list" where
  "relationList n r = (case map_of (NoteRecord.relations n) r of Some ps \<Rightarrow> ps | None \<Rightarrow> [])"

text \<open>A character of a string, or \<open>undefined\<close>, inside a template string.\<close>

definition template :: "string option \<Rightarrow> string" where
  "template c = (case c of Some s \<Rightarrow> s | None \<Rightarrow> ''undefined'')"

text \<open>
  The continuation of \<open>deleteRelation\<close>, with both ends at hand (\<open>data\<close> and \<open>other\<close> are
  addresses). The changed copy of \<open>data\<close> is queued under \<open>`${key[0]}:${key[1]}`\<close>, where
  \<open>key\<close> is the normalized phrase, and the cached \<open>data\<close> itself is left as it is.
\<close>

definition deleteContinuation ::
  "frame \<Rightarrow> Index \<Rightarrow> string \<Rightarrow> ProjectInfo \<Rightarrow> string \<Rightarrow> nat \<Rightarrow> nat \<Rightarrow> string \<Rightarrow> KeyPair \<Rightarrow> nat
     \<Rightarrow> unit promise \<times> Index" where
  "deleteContinuation ctx st projectName projectInfo key notePk data relation pair other =
     (case reverseRelation st (ByInfo projectInfo) relation of
        Inl e \<Rightarrow> (thrown ctx e, st)
      | Inr reversed \<Rightarrow>
          (case (case reversed of Name s \<Rightarrow> if s = [] then None else Some s | _ \<Rightarrow> None) of
             None \<Rightarrow>
               (Rejected (Message (''could not find the reversed relation for '' @ relation
                                    @ '' in '' @ projectName)), st)
           | Some reversedRelation \<Rightarrow>
               (case deref st (Ref other) of
                  Some (Note n) \<Rightarrow>
                    (let pairs22 = filter (\<lambda>q. q \<noteq> (pk projectInfo, notePk))
                                     (relationList n reversedRelation);
                         st1 = st\<lparr>heap := (heap st)[other := Note (setOrDelete reversedRelation pairs22 n)]\<rparr>
                     in case deepClone (Ref data) st1 of
                          (Undefined, st2) \<Rightarrow> (thrown ctx TypeError, st2)
                        | (Ref data2, st2) \<Rightarrow>
                            (case deref st2 (Ref data2) of
                               Some (Note d2) \<Rightarrow>
                                 (let pairs2 = filter (\<lambda>q. q \<noteq> pair) (relationList d2 relation);
                                      st3 = st2\<lparr>heap := (heap st2)[data2 := Note (setOrDelete relation pairs2 d2)]\<rparr>;
                                      storable = AList.update
                                                   (template (charAt key 0) @ '':'' @ template (charAt key 1))
                                                   (Obj data2) [(enkey pair, Obj other)]
                                  in case storageSet (serialise st3 storable) (chrome st3) of
                                       (Some e, c) \<Rightarrow> (Rejected (LastError e), st3\<lparr>chrome := c\<rparr>)
                                     | (None, c) \<Rightarrow> (Resolved (), st3\<lparr>chrome := c\<rparr>))
                             | _ \<Rightarrow> (thrown ctx TypeError, st2)))
                | _ \<Rightarrow> (thrown ctx TypeError, st))))"

text \<open>
  \<open>deleteRelation({phrase, project, relation, pair})\<close>. When the other note is not cached
  it is read from storage, and what goes into the cache, and to the continuation, is
  the whole answer of \<open>get\<close> (the object with the key), not the note under the key.
\<close>

definition deleteRelation ::
  "Index \<Rightarrow> string \<Rightarrow> ProjectInfo \<Rightarrow> string \<Rightarrow> KeyPair \<Rightarrow> unit promise \<times> Index" where
  "deleteRelation st phrase project relation pair =
     (case findProject st (ByInfo project) of
        (projectName, None) \<Rightarrow> (Rejected Unreachable, st)
      | (projectName, Some projectInfo) \<Rightarrow>
          (case normalize st phrase (ByInfo projectInfo) of
             Inl e \<Rightarrow> (Rejected e, st)
           | Inr key \<Rightarrow>
               (case (case map_of (projectIndices st) (pk projectInfo) of
                        None \<Rightarrow> None
                      | Some ix \<Rightarrow> map_of ix key) of
                  None \<Rightarrow>
                    (Rejected (Message (''the phrase '' @ phrase @ '' is not stored in '' @ projectName)), st)
                | Some notePk \<Rightarrow>
                    (case cached st (enkey (pk projectInfo, notePk)) of
                       None \<Rightarrow>
                         (Rejected (Message ''the phrase was not cached; this should be unreachable code''), st)
                     | Some (data, _) \<Rightarrow>
                         (case cached st (enkey pair) of
                            Some (other, _) \<Rightarrow>
                              deleteContinuation Executor st projectName projectInfo key notePk data
                                relation pair other
                          | None \<Rightarrow>
                              (case storageGet [enkey pair] (chrome st) of
                                 (Inl e, c) \<Rightarrow> (Rejected (LastError e), st\<lparr>chrome := c\<rparr>)
                               | (Inr found, c) \<Rightarrow>
                                   (case alloc (Result found) (st\<lparr>chrome := c\<rparr>) of
                                      (a, st1) \<Rightarrow>
                                        deleteContinuation Callback (cacheSet (enkey pair) (Ref a) st1)
                                          projectName projectInfo key notePk data relation pair a)))))))"

subsection \<open>\<open>saveProject\<close>\<close>

text \<open>\<open>s.replace(/\s+/, ' ')\<close>, without the flag \<open>g\<close>: only the first run is replaced.\<close>

fun replaceFirstRun :: "string \<Rightarrow> string" where
  "replaceFirstRun [] = []"
| "replaceFirstRun (c # cs) =
     (if isSpace c then CHR '' '' # dropWhile isSpace cs else c # replaceFirstRun cs)"

definition nextProjectPk :: "(string \<times> ProjectInfo) list \<Rightarrow> nat" where
  "nextProjectPk ps = fold (\<lambda>(k, info) n. if pk info \<ge> n then pk info + 1 else n) ps 1"

text \<open>
  \<open>saveProject({name, description, normalizer, relations})\<close>; a field that is not given
  (\<open>None\<close>) takes its default.
\<close>

definition saveProject ::
  "Index \<Rightarrow> string \<Rightarrow> string option \<Rightarrow> string option \<Rightarrow> (string \<times> string) list option
     \<Rightarrow> nat promise \<times> Index" where
  "saveProject st nm descr norm rels =
     (let nm' = replaceFirstRun (trim nm);
          descr' = replaceFirstRun (trim (case descr of None \<Rightarrow> ''[no description]'' | Some d \<Rightarrow> d));
          (n, st1, storable) =
            (case map_of (projects st) nm' of
               Some info \<Rightarrow> (pk info, st, [])
             | None \<Rightarrow>
                 (let n = nextProjectPk (projects st)
                  in (n,
                      st\<lparr>projectIndices := AList.update n [] (projectIndices st),
                         reverseProjectIndex := AList.update n nm' (reverseProjectIndex st)\<rparr>,
                      [(showNat n, IndexV [])])));
          info = \<lparr>pk = n, name = nm', description = descr',
                  normalizer = (case norm of None \<Rightarrow> [] | Some z \<Rightarrow> z),
                  ProjectInfo.relations =
                    (case rels of None \<Rightarrow> [(''see also'', ''see also'')] | Some r \<Rightarrow> r)\<rparr>;
          st2 = st1\<lparr>projects := AList.update nm' info (projects st1)\<rparr>
      in case storageSet (AList.update ''projects'' (ProjectsV (projects st2)) storable) (chrome st2) of
           (Some e, c) \<Rightarrow> (Rejected (LastError e), st2\<lparr>chrome := c\<rparr>)
         | (None, c) \<Rightarrow> (Resolved n, st2\<lparr>chrome := c\<rparr>))"

subsection \<open>\<open>removeProject\<close>\<close>

text \<open>The notes a \<open>get\<close> answered with, as fresh objects.\<close>

fun allocAll :: "(string \<times> jsval) list \<Rightarrow> Index \<Rightarrow> (string \<times> nat) list \<times> Index" where
  "allocAll [] st = ([], st)"
| "allocAll ((key, note) # found) st =
     (case alloc note st of
        (a, st1) \<Rightarrow>
          (case allocAll found st1 of
             (entries, st2) \<Rightarrow> ((key, a) # entries, st2)))"

text \<open>
  The last continuation: each adjustable note loses from its own "see also" list the
  pairs that point into the project (reading that list throws when the note has none)
  and is queued; then the storage calls follow. The project is taken out of \<open>projects\<close>
  and \<open>reverseProjectIndex\<close> whatever its key is.
\<close>

definition adjust ::
  "nat \<Rightarrow> string \<times> nat \<Rightarrow> Index \<times> (string \<times> pending) list
     \<Rightarrow> error option \<times> Index \<times> (string \<times> pending) list" where
  "adjust projectPk entry s =
     (case entry of (key, a) \<Rightarrow>
        (case s of (st, memoranda) \<Rightarrow>
           (case deref st (Ref a) of
              Some (Note n) \<Rightarrow>
                (case map_of (NoteRecord.relations n) ''see also'' of
                   None \<Rightarrow> (Some TypeError, s)
                 | Some ps \<Rightarrow>
                     (None,
                      st\<lparr>heap := (heap st)[a := Note (setOrDelete ''see also''
                                                      (filter (\<lambda>(k, v). k \<noteq> projectPk) ps) n)]\<rparr>,
                      AList.update key (Obj a) memoranda))
            | _ \<Rightarrow> (Some TypeError, s))))"

definition removeContinuation2 ::
  "frame \<Rightarrow> Index \<Rightarrow> ProjectInfo \<Rightarrow> string list \<Rightarrow> string list \<Rightarrow> (string \<times> nat) list
     \<Rightarrow> unit promise \<times> Index" where
  "removeContinuation2 ctx st projectInfo delenda found adjustables =
     (case forEach (adjust (pk projectInfo)) adjustables (st, []) of
        (Some e, st1, _) \<Rightarrow> (thrown ctx e, st1)
      | (None, st1, memoranda) \<Rightarrow>
          (case storageRemove (delenda @ [showNat (pk projectInfo)]) (chrome st1) of
             (Some e, c) \<Rightarrow> (Rejected (LastError e), st1\<lparr>chrome := c\<rparr>)
           | (None, c) \<Rightarrow>
               (let st2 = st1\<lparr>chrome := c,
                              projects := AList.delete (name projectInfo) (projects st1),
                              reverseProjectIndex :=
                                AList.delete (pk projectInfo) (reverseProjectIndex st1)\<rparr>;
                    current = (currentProject st2 = pk projectInfo);
                    st3 = (if current then st2\<lparr>currentProject := 0\<rparr> else st2);
                    memoranda1 = (if current then AList.update ''currentProject'' (Val (NumV 0)) memoranda
                                  else memoranda);
                    memoranda2 = AList.update ''projects'' (Val (ProjectsV (projects st3))) memoranda1
                in case storageSet (serialise st3 memoranda2) (chrome st3) of
                     (Some e, c') \<Rightarrow>
                       (Rejected (Message (''all the notes in '' @ name projectInfo
                          @ '' have been deleted, but some changes could not be saved: '' @ e)),
                        st3\<lparr>chrome := c'\<rparr>)
                   | (None, c') \<Rightarrow>
                       (Resolved (), st3\<lparr>chrome := c', cache := fold AList.delete found (cache st3)\<rparr>))))"

text \<open>
  The first continuation: the "see also" targets, outside the project, of the notes to
  delete are the notes to adjust, from the cache or else from storage.
\<close>

definition gather ::
  "Index \<Rightarrow> nat \<Rightarrow> ref \<Rightarrow> (string \<times> nat) list \<times> string list
     \<Rightarrow> error option \<times> (string \<times> nat) list \<times> string list" where
  "gather st projectPk note s =
     (case deref st note of
        Some (Note n) \<Rightarrow>
          (None,
           fold (\<lambda>k acc. case cached st (enkey k) of
                           Some (a, v) \<Rightarrow> (fst acc @ [(enkey k, a)], snd acc)
                         | None \<Rightarrow> (fst acc, snd acc @ [enkey k]))
                (filter (\<lambda>(k, v). k \<noteq> projectPk) (relationList n ''see also''))
                s)
      | _ \<Rightarrow> (Some TypeError, s))"

definition removeContinuation1 ::
  "frame \<Rightarrow> Index \<Rightarrow> ProjectInfo \<Rightarrow> string list \<Rightarrow> string list \<Rightarrow> ref list
     \<Rightarrow> unit promise \<times> Index" where
  "removeContinuation1 ctx st projectInfo delenda found notes =
     (case forEach (gather st (pk projectInfo)) notes ([], []) of
        (Some e, _) \<Rightarrow> (thrown ctx e, st)
      | (None, adjustables, adjustanda) \<Rightarrow>
          if adjustanda = [] then removeContinuation2 ctx st projectInfo delenda found adjustables
          else (case storageGet adjustanda (chrome st) of
                  (Inl e, c) \<Rightarrow> (Rejected (LastError e), st\<lparr>chrome := c\<rparr>)
                | (Inr answer, c) \<Rightarrow>
                    (case allocAll answer (st\<lparr>chrome := c\<rparr>) of
                       (entries, st1) \<Rightarrow>
                         removeContinuation2 Callback st1 projectInfo delenda found
                           (adjustables @ entries))))"

definition removeProject :: "Index \<Rightarrow> ProjectIdentifier \<Rightarrow> unit promise \<times> Index" where
  "removeProject st project =
     (case snd (findProject st project) of
        None \<Rightarrow> (Rejected TypeError, st)
      | Some projectInfo \<Rightarrow>
          (case map_of (projectIndices st) (pk projectInfo) of
             None \<Rightarrow> (Rejected TypeError, st)
           | Some ix \<Rightarrow>
               (let keys = map (\<lambda>(k, n). enkey (pk projectInfo, n)) ix;
                    found = filter (\<lambda>k. cached st k \<noteq> None) keys;
                    notes = map (cacheGet st) found;
                    missing = filter (\<lambda>k. cached st k = None) keys
                in if missing = [] then removeContinuation1 Executor st projectInfo keys found notes
                   else (case storageGet missing (chrome st) of
                           (Inl e, c) \<Rightarrow> (Rejected (LastError e), st\<lparr>chrome := c\<rparr>)
                         | (Inr answer, c) \<Rightarrow>
                             (case allocAll answer (st\<lparr>chrome := c\<rparr>) of
                                (entries, st1) \<Rightarrow>
                                  removeContinuation1 Callback st1 projectInfo keys found
                                    (notes @ map (\<lambda>(k, a). Ref a) entries))))))"

subsection \<open>\<open>clear\<close>\<close>

definition clear :: "Index \<Rightarrow> unit promise \<times> Index" where
  "clear st =
     (case storageClear (chrome st) of
        (Some e, c) \<Rightarrow> (Rejected (LastError e), st\<lparr>chrome := c\<rparr>)
      | (None, c) \<Rightarrow>
          (let project = makeDefaultProject;
               ps = [(name project, project)]
           in (Resolved (),
               st\<lparr>chrome := snd (storageSet [(''projects'', ProjectsV ps)] c),
                  cache := [], projectIndices := [(pk project, [])], projects := ps,
                  reverseProjectIndex := [], tags := []\<rparr>)))"

text \<open>The project registry has a project with primary key 0.\<close>

definition hasProjectZero :: "Index \<Rightarrow> bool" where
  "hasProjectZero st = (0 \<in> set (map (\<lambda>(k, info). pk info) (projects st)))"

text \<open>
  One heap keeps the named relations of another: it has the same objects, every note of
  the first is a note in the second, and under every relation name but the empty one
  that note has the same list.
\<close>

definition keptHeap :: "jsval list \<Rightarrow> jsval list \<Rightarrow> bool" where
  "keptHeap h h' =
     (length h' = length h \<and>
      (\<forall>a<length h. \<forall>n. h ! a = Note n \<longrightarrow>
         (\<exists>n'. h' ! a = Note n' \<and>
               (\<forall>r. r \<noteq> [] \<longrightarrow>
                  map_of (NoteRecord.relations n') r = map_of (NoteRecord.relations n) r))))"

section \<open>States and queries used in the examples\<close>

text \<open>
  A note without tags, citations or star, with the given relations; the relations of
  the note cached, or stored, under a key.
\<close>

definition plainNote :: "(string \<times> KeyPair list) list \<Rightarrow> NoteRecord" where
  "plainNote rs = \<lparr>starred = False, tags = [], citations = [], NoteRecord.relations = rs\<rparr>"

definition relationsAt :: "Index \<Rightarrow> string \<Rightarrow> (string \<times> KeyPair list) list option" where
  "relationsAt st key =
     (case deref st (cacheGet st key) of
        Some (Note n) \<Rightarrow> Some (NoteRecord.relations n)
      | _ \<Rightarrow> None)"

definition storedRelationsAt :: "Index \<Rightarrow> string \<Rightarrow> (string \<times> KeyPair list) list option" where
  "storedRelationsAt st key =
     (case map_of (items (chrome st)) key of
        Some (Note n) \<Rightarrow> Some (NoteRecord.relations n)
      | _ \<Rightarrow> None)"

text \<open>
  The default project with "cat" (key 0:0, no relations), then "bird" (0:1, "see also"
  cat), then "dog" (0:2, "see also" cat and bird). Each note is a new object of the
  caller.
\<close>

definition withCat :: Index where
  "withCat = snd (add (snd (alloc (Note (plainNote [])) freshIndex)) ''cat'' 0 0)"

definition withBird :: Index where
  "withBird =
     snd (add (snd (alloc (Note (plainNote [(''see also'', [(0, 0)])])) withCat)) ''bird'' 0 1)"

definition withDog :: "unit promise \<times> Index" where
  "withDog =
     add (snd (alloc (Note (plainNote [(''see also'', [(0, 0), (0, 1)])])) withBird)) ''dog'' 0 2"

text \<open>
  "cat" and "dog" stored without relations, and then "dog" saved again with the relation
  "see also" to "cat".
\<close>

definition catAndDog :: Index where
  "catAndDog = snd (add (snd (alloc (Note (plainNote [])) withCat)) ''dog'' 0 1)"

definition related :: Index where
  "related =
     snd (add (snd (alloc (Note (plainNote [(''see also'', [(0, 0)])])) catAndDog)) ''dog'' 0 2)"

text \<open>
  An index as \<open>getIndex\<close> builds it at start-up over a storage area that holds the
  default project and the note "cat": the cache is empty. \<open>es\<close> scripts the errors of
  the storage calls to come.
\<close>

definition storedChrome :: "string option list \<Rightarrow> Chrome" where
  "storedChrome es =
     \<lparr>items = [(''projects'', ProjectsV [([], makeDefaultProject)]),
               (''0'', IndexV [(''cat'', 0)]),
               (''0:0'', Note (plainNote []))],
      lastErrors = es, bytesInUse = 0, calls = []\<rparr>"

definition loadedIndex :: "string option list \<Rightarrow> Index" where
  "loadedIndex es = newIndex (storedChrome es) [([], makeDefaultProject)] 0 [(0, [(''cat'', 0)])] []"

text \<open>The query \<open>{type: "ad hoc"}\<close>, and an exact search for unstarred "cat".\<close>

definition noCriteria :: AdHoc where
  "noCriteria =
     \<lparr>q_phrase = None, q_strictness = None, q_project = None, q_starred = None,
      q_tagRequired = None, q_tagForbidden = None, q_url = None, q_before = None,
      q_after = None\<rparr>"

definition exactCat :: AdHoc where
  "exactCat = noCriteria\<lparr>q_phrase := Some ''cat'', q_strictness := Some Exact, q_starred := Some False\<rparr>"

text \<open>
  The project "German" with the normalizer "German" (it gets the key 1), and the phrase
  U+00DC "ber" added to it.
\<close>

definition germanIndex :: Index where
  "germanIndex = snd (saveProject freshIndex ''German'' None (Some ''German'') None)"

definition uberAdded :: "unit promise \<times> Index" where
  "uberAdded = add (snd (alloc (Note (plainNote [])) germanIndex)) (CHR 0xDC # ''ber'') 1 0"

text \<open>
  A project "French" saved with the normalizer "French", which the registry does not
  have; it gets the key 1.
\<close>

definition frenchIndex :: Index where
  "frenchIndex = snd (saveProject freshIndex ''French'' None (Some ''French'') None)"

text \<open>
  "cat" and "dog" stored with the relation "see also" to each other, as a mirrored
  relation would leave them.
\<close>

definition mutual :: Index where
  "mutual =
     snd (add (snd (alloc (Note (plainNote [(''see also'', [(0, 0)])]))
                 (snd (add (snd (alloc (Note (plainNote [(''see also'', [(0, 1)])])) freshIndex))
                        ''cat'' 0 0))))
            ''dog'' 0 1)"

text \<open>The entry of a key in the phrase index of a project.\<close>

definition indexEntry :: "Index \<Rightarrow> nat \<Rightarrow> string \<Rightarrow> nat option" where
  "indexEntry st p key = (case map_of (projectIndices st) p of Some ix \<Rightarrow> map_of ix key | None \<Rightarrow> None)"

section \<open>Properties of the normalizers\<close>

lemma all_chars:
  assumes "list_all P (map char_of [0..255::int])"
  shows "P c"
proof -
  have "0 \<le> (of_char c :: int)"
    using of_char_mod_256[of c, where 'a=int] by (metis pos_mod_sign zero_less_numeral)
  moreover have "(of_char c :: int) < 256"
    using of_char_mod_256[of c, where 'a=int] by (metis pos_mod_bound zero_less_numeral)
  ultimately have "of_char c \<in> set [0..255::int]" by simp
  then have "char_of (of_char c :: int) \<in> set (map char_of [0..255::int])"
    unfolding set_map by (rule imageI)
  then show ?thesis using assms by (auto simp: list_all_iff)
qed

lemma defaultOkBase_all: "defaultOkBase c"
  by (rule all_chars) code_simp

lemma germanOkLower_all: "germanOkLower c"
  by (rule all_chars) code_simp

lemma settledD_space: "settledD (CHR '' '')"
  by code_simp

lemma settled_space: "settled (CHR '' '')"
  by code_simp

subsection \<open>\<open>trim\<close> and \<open>collapse\<close>\<close>
lemma set_trim: "set (trim s) \<subseteq> set s"
proof -
  have "set (trim s) = set (dropWhile isSpace (rev (dropWhile isSpace s)))"
    by (simp add: trim_def)
  also have "\<dots> \<subseteq> set (rev (dropWhile isSpace s))"
    by (auto dest: set_dropWhileD)
  also have "\<dots> \<subseteq> set s"
    by (auto dest: set_dropWhileD)
  finally show ?thesis .
qed

lemma set_collapseFrom: "set (collapseFrom b s) \<subseteq> insert (CHR '' '') (set s)"
  by (induction s arbitrary: b) auto

lemma set_collapse_trim: "set (collapse (trim s)) \<subseteq> insert (CHR '' '') (set s)"
  using set_collapseFrom[of False "trim s"] set_trim[of s] unfolding collapse_def by auto

lemma trim_ends:
  assumes "trim s \<noteq> []"
  shows "\<not> isSpace (hd (trim s))" and "\<not> isSpace (last (trim s))"
proof -
  let ?a = "dropWhile isSpace s"
  let ?b = "dropWhile isSpace (rev ?a)"
  have b: "?b \<noteq> []" using assms by (simp add: trim_def)
  have a: "?a \<noteq> []"
  proof
    assume e: "?a = []"
    have "?b = []" unfolding e by simp
    with b show False by simp
  qed
  then obtain x a' where xa: "?a = x # a'" by (cases ?a) auto
  have nx: "\<not> isSpace x" using hd_dropWhile[OF a] xa by simp
  have "?b = dropWhile isSpace (rev a') @ [x]"
    using nx by (simp add: xa dropWhile_append3)
  then have "trim s = x # rev (dropWhile isSpace (rev a'))"
    by (simp add: trim_def)
  then show "\<not> isSpace (hd (trim s))" using nx by simp
  have "last (trim s) = hd ?b"
    using b by (simp add: trim_def last_rev)
  then show "\<not> isSpace (last (trim s))" using hd_dropWhile[OF b] by simp
qed

lemma noDouble_Cons:
  "noDouble (a # r) = ((r = [] \<or> \<not> (isSpace a \<and> isSpace (hd r))) \<and> noDouble r)"
  by (cases r) auto

lemma collapseFrom_last:
  "t \<noteq> [] \<Longrightarrow> \<not> isSpace (last t) \<Longrightarrow> collapseFrom b t \<noteq> [] \<and> last (collapseFrom b t) = last t"
proof (induction t arbitrary: b)
  case Nil
  then show ?case by simp
next
  case (Cons c cs)
  show ?case
  proof (cases "cs = []")
    case True
    then show ?thesis using Cons.prems by simp
  next
    case False
    then have "\<not> isSpace (last cs)" using Cons.prems by simp
    then have "\<And>b'. collapseFrom b' cs \<noteq> [] \<and> last (collapseFrom b' cs) = last cs"
      using Cons.IH False by blast
    then show ?thesis using False by simp
  qed
qed

lemma collapseFrom_noDouble:
  "noDouble (collapseFrom b t) \<and> (b \<longrightarrow> collapseFrom b t = [] \<or> \<not> isSpace (hd (collapseFrom b t)))"
proof (induction t arbitrary: b)
  case Nil
  then show ?case by simp
next
  case (Cons c cs)
  show ?case
  proof (cases "isSpace c")
    case True
    then show ?thesis using Cons.IH[of True] by (simp add: noDouble_Cons)
  next
    case False
    then show ?thesis using Cons.IH[of False] by (simp add: noDouble_Cons)
  qed
qed

lemma tidy_collapse_trim: "tidy (collapse (trim s))"
proof (cases "trim s = []")
  case True
  then show ?thesis by (simp add: tidy_def collapse_def)
next
  case False
  then obtain c cs where t: "trim s = c # cs" by (cases "trim s") auto
  have nc: "\<not> isSpace c" using trim_ends(1)[OF False] t by simp
  have "collapse (trim s) = c # collapseFrom False cs"
    using nc by (simp add: collapse_def t)
  then have h: "\<not> isSpace (hd (collapse (trim s)))" using nc by simp
  have l: "\<not> isSpace (last (collapse (trim s)))"
    using collapseFrom_last[OF False trim_ends(2)[OF False], of False] trim_ends(2)[OF False]
    by (simp add: collapse_def)
  show ?thesis using h l collapseFrom_noDouble[of False "trim s"]
    by (simp add: tidy_def collapse_def)
qed

lemma trim_tidy: 
  assumes "tidy s" shows "trim s = s"
proof (cases "s = []")
  case True
  then show ?thesis by (simp add: trim_def)
next
  case False
  then have h: "\<not> isSpace (hd s)" and l: "\<not> isSpace (last s)"
    using assms by (auto simp: tidy_def)
  have "dropWhile isSpace s = s" using False h by (cases s) auto
  moreover have "dropWhile isSpace (rev s) = rev s"
    using False l by (cases "rev s") (auto simp: last_rev hd_rev)
  ultimately show ?thesis by (simp add: trim_def)
qed

lemma collapseFrom_id:
  "noDouble s \<Longrightarrow> \<forall>c\<in>set s. isSpace c \<longrightarrow> c = CHR '' '' \<Longrightarrow> (b \<longrightarrow> s = [] \<or> \<not> isSpace (hd s))
   \<Longrightarrow> collapseFrom b s = s"
proof (induction s arbitrary: b)
  case Nil
  then show ?case by simp
next
  case (Cons c cs)
  show ?case
  proof (cases "isSpace c")
    case True
    then have nb: "\<not> b" using Cons.prems(3) by simp
    have c: "c = CHR '' ''" using True Cons.prems(2) by simp
    have "cs = [] \<or> \<not> isSpace (hd cs)" using Cons.prems(1) True by (simp add: noDouble_Cons)
    then have "collapseFrom True cs = cs"
      using Cons.IH[of True] Cons.prems by (simp add: noDouble_Cons)
    then show ?thesis using True nb c by simp
  next
    case False
    have "collapseFrom False cs = cs"
      using Cons.IH[of False] Cons.prems by (simp add: noDouble_Cons)
    then show ?thesis using False by simp
  qed
qed

lemma collapse_trim_tidy:
  assumes "tidy s" and "\<forall>c\<in>set s. isSpace c \<longrightarrow> c = CHR '' ''"
  shows "collapse (trim s) = s"
  using assms collapseFrom_id[of s False] by (simp add: trim_tidy collapse_def tidy_def)

lemma collapse_trim_fixed_iff:
  assumes "\<forall>c\<in>set s. isSpace c \<longrightarrow> c = CHR '' ''"
  shows "collapse (trim s) = s \<longleftrightarrow> tidy s"
  using collapse_trim_tidy[OF _ assms] tidy_collapse_trim[of s] by auto

subsection \<open>A normalizer applied to its own result\<close>

lemma defaultCode_settled: "x \<in> set (defaultCode p) \<Longrightarrow> settledD x"
proof -
  assume "x \<in> set (defaultCode p)"
  then obtain e where "x = lowerChar (baseChar e)" "kept (baseChar e)"
    by (auto simp: defaultCode_def toLowerCase_def removeNonWord_def stripDiacrics_def)
  then show ?thesis using defaultOkBase_all[of e] by (simp add: defaultOkBase_def defaultOk_def)
qed

lemma defaultCode_on_settled:
  assumes "\<forall>c\<in>set s. settledD c"
  shows "defaultCode s = collapse (trim s)"
proof -
  have "\<forall>c\<in>set (collapse (trim s)). settledD c"
    using assms set_collapse_trim[of s] settledD_space by auto
  then have "map baseChar (collapse (trim s)) = collapse (trim s)"
    "filter kept (collapse (trim s)) = collapse (trim s)"
    "map lowerChar (collapse (trim s)) = collapse (trim s)"
    by (auto simp: settledD_def intro: map_idI)
  then show ?thesis
    by (simp add: defaultCode_def toLowerCase_def removeNonWord_def stripDiacrics_def)
qed

lemma germanCode_settled: "x \<in> set (germanCode p) \<Longrightarrow> settled x"
proof -
  assume "x \<in> set (germanCode p)"
  then obtain y z where "x = baseChar z" "z \<in> set (germanChar (lowerChar y))" "kept (baseChar z)"
    by (auto simp: germanCode_def toLowerCase_def removeNonWord_def stripDiacrics_def)
  then show ?thesis using germanOkLower_all[of y]
    by (auto simp: germanOkLower_def germanOk_def list_all_iff)
qed

lemma concat_germanChar:
  "\<forall>c\<in>set t. germanChar c = [c] \<Longrightarrow> concat (map germanChar t) = t"
  by (induction t) auto

lemma germanCode_on_settled:
  assumes "\<forall>c\<in>set s. settled c"
  shows "germanCode s = collapse (trim s)"
proof -
  let ?t = "collapse (trim s)"
  have st: "\<forall>c\<in>set ?t. settled c"
    using assms set_collapse_trim[of s] settled_space by auto
  then have "map lowerChar ?t = ?t" by (auto simp: settled_def settledD_def intro: map_idI)
  moreover have "concat (map germanChar ?t) = ?t"
    using st by (intro concat_germanChar) (simp add: settled_def)
  moreover have "map baseChar ?t = ?t" "filter kept ?t = ?t"
    using st by (auto simp: settled_def settledD_def intro: map_idI)
  ultimately show ?thesis
    by (simp add: germanCode_def toLowerCase_def removeNonWord_def stripDiacrics_def)
qed

lemma defaultCode_twice: "defaultCode (defaultCode p) = collapse (trim (defaultCode p))"
  using defaultCode_on_settled defaultCode_settled by blast

lemma germanCode_twice: "germanCode (germanCode p) = collapse (trim (germanCode p))"
  using germanCode_on_settled germanCode_settled by blast

lemma defaultCode_idem_iff: "defaultCode (defaultCode p) = defaultCode p \<longleftrightarrow> tidy (defaultCode p)"
  using collapse_trim_fixed_iff[of "defaultCode p"] defaultCode_settled[of _ p]
  by (simp add: defaultCode_twice settledD_def)

lemma germanCode_idem_iff: "germanCode (germanCode p) = germanCode p \<longleftrightarrow> tidy (germanCode p)"
  using collapse_trim_fixed_iff[of "germanCode p"] germanCode_settled[of _ p]
  by (simp add: germanCode_twice settled_def settledD_def)

section \<open>The claims about normalization\<close>

lemma normalize_bang: "normalize freshIndex ''a ! b'' (ByPk 0) = Inr ''a  b''"
  by code_simp

lemma normalize_bang_again: "normalize freshIndex ''a  b'' (ByPk 0) = Inr ''a b''"
  by code_simp

lemma normalize_bang_first: "normalize freshIndex ''! a'' (ByPk 0) = Inr '' a''"
  by code_simp

lemma normalize_bang_first_again: "normalize freshIndex '' a'' (ByPk 0) = Inr ''a''"
  by code_simp

lemma normalize_cat_nap: "normalize freshIndex ''Cat  Nap'' (ByPk 0) = Inr ''cat nap''"
  by code_simp

text \<open>
  C8 says that \<open>normalize\<close> is idempotent, and the description of the default normalizer
  that it strips marginal white space and leaves single spaces inside. In the default
  project the code turns \<open>"a ! b"\<close> into \<open>"a  b"\<close>, with two spaces, and that into
  \<open>"a b"\<close>; it turns \<open>"! a"\<close> into \<open>" a"\<close>, with a leading space, and that into \<open>"a"\<close>.
  The white space is trimmed and collapsed before the other characters are removed,
  so the spaces around a removed character stay.
\<close>

theorem normalize_not_idempotent:
  "normalize freshIndex ''a ! b'' (ByPk 0) = Inr ''a  b'' \<and>
   normalize freshIndex ''a  b'' (ByPk 0) = Inr ''a b'' \<and>
   normalize freshIndex ''! a'' (ByPk 0) = Inr '' a'' \<and>
   normalize freshIndex '' a'' (ByPk 0) = Inr ''a''"
  using normalize_bang normalize_bang_again normalize_bang_first normalize_bang_first_again
  by simp

text \<open>
  Which results are fixed points, for phrases of the code units U+0000 to U+00FF: a
  result \<open>k\<close> of \<open>normalize\<close> is normalized to itself exactly when it has no leading
  space, no trailing space and no two adjacent spaces.
\<close>

lemma normalize_idempotent_iff_tidy:
  assumes "normalize st p project = Inr k"
  shows "normalize st k project = Inr k \<longleftrightarrow> tidy k"
proof -
  let ?r = "case project of ByInfo projectInfo \<Rightarrow> Some projectInfo
                          | _ \<Rightarrow> snd (findProject st project)"
  let ?key = "case ?r of Some info \<Rightarrow> ProjectInfo.normalizer info | None \<Rightarrow> []"
  consider (d) "?key = []" | (g) "?key = ''German''" | (o) "?key \<noteq> []" "?key \<noteq> ''German''"
    by blast
  then show ?thesis
  proof cases
    case d
    then have "\<And>q. normalize st q project = Inr (defaultCode q)"
      by (simp add: normalize_def normalizers_def Let_def)
    then show ?thesis using assms defaultCode_idem_iff[of p] by auto
  next
    case g
    then have "\<And>q. normalize st q project = Inr (germanCode q)"
      by (simp add: normalize_def normalizers_def Let_def)
    then show ?thesis using assms germanCode_idem_iff[of p] by auto
  next
    case o
    then have "normalize st p project = Inl TypeError"
      by (simp add: normalize_def normalizers_def Let_def)
    then show ?thesis using assms by simp
  qed
qed

lemma normalize_idempotent_iff_tidy_witness:
  "normalize freshIndex ''Cat  Nap'' (ByPk 0) = Inr ''cat nap'' \<and> tidy ''cat nap'' \<and>
   normalize freshIndex ''cat nap'' (ByPk 0) = Inr ''cat nap'' \<and>
   normalize freshIndex ''a ! b'' (ByPk 0) = Inr ''a  b'' \<and> \<not> tidy ''a  b'' \<and>
   normalize freshIndex ''a  b'' (ByPk 0) \<noteq> Inr ''a  b''"
proof -
  have t: "tidy ''cat nap''" by code_simp
  have n: "\<not> tidy ''a  b''" by code_simp
  show ?thesis
    using normalize_idempotent_iff_tidy[OF normalize_cat_nap]
      normalize_idempotent_iff_tidy[OF normalize_bang] normalize_cat_nap normalize_bang t n
    by simp
qed

text \<open>
  C10: whatever identifies the project (its information, its key or its name),
  \<open>normalize\<close> returns a string for every phrase when the normalizer of the project it
  resolves to is \<open>""\<close> or \<open>"German"\<close>, and throws a TypeError, instead of falling back to
  the default normalizer, when it is any other string. A key or a name that resolves
  to no project information at all takes the default normalizer.
\<close>

theorem normalize_total_only_for_registered:
  "(case project of
      ByInfo r \<Rightarrow>
        (ProjectInfo.normalizer r \<in> {[], ''German''} \<longrightarrow>
           (\<exists>k. normalize st phrase project = Inr k)) \<and>
        (ProjectInfo.normalizer r \<notin> {[], ''German''} \<longrightarrow>
           normalize st phrase project = Inl TypeError)
    | _ \<Rightarrow>
        (case snd (findProject st project) of
           Some r \<Rightarrow>
             (ProjectInfo.normalizer r \<in> {[], ''German''} \<longrightarrow>
                (\<exists>k. normalize st phrase project = Inr k)) \<and>
             (ProjectInfo.normalizer r \<notin> {[], ''German''} \<longrightarrow>
                normalize st phrase project = Inl TypeError)
         | None \<Rightarrow> (\<exists>k. normalize st phrase project = Inr k)))"
  by (simp add: normalize_def normalizers_def split: ProjectIdentifier.splits option.splits)

theorem normalize_total_only_for_registered_witness:
  "(\<exists>k. normalize frenchIndex ''Cat'' (ByPk 0) = Inr k) \<and>
   (\<exists>k. normalize frenchIndex ''Cat'' (ByName []) = Inr k) \<and>
   (\<exists>k. normalize germanIndex ''Cat'' (ByPk 1) = Inr k) \<and>
   (\<exists>k. normalize germanIndex ''Cat'' (ByName ''German'') = Inr k) \<and>
   normalize frenchIndex ''Cat'' (ByPk 1) = Inl TypeError \<and>
   normalize frenchIndex ''Cat'' (ByName ''French'') = Inl TypeError \<and>
   (\<exists>k. normalize freshIndex ''Cat'' (ByInfo makeDefaultProject) = Inr k) \<and>
   (\<exists>k. normalize freshIndex ''Cat'' (ByInfo (makeDefaultProject\<lparr>normalizer := ''German''\<rparr>)) = Inr k) \<and>
   normalize freshIndex ''Cat'' (ByInfo (makeDefaultProject\<lparr>normalizer := ''French''\<rparr>)) = Inl TypeError \<and>
   (\<exists>k. normalize (snd (removeProject freshIndex (ByPk 0))) ''Cat'' (ByPk 0) = Inr k)"
proof -
  have d0: "snd (findProject frenchIndex (ByPk 0)) = Some makeDefaultProject" by code_simp
  have d1: "snd (findProject frenchIndex (ByName [])) = Some makeDefaultProject" by code_simp
  have g0: "snd (findProject germanIndex (ByPk (Suc 0))) =
      Some \<lparr>pk = 1, name = ''German'', description = ''[no description]'', normalizer = ''German'',
            ProjectInfo.relations = [(''see also'', ''see also'')]\<rparr>" by code_simp
  have g1: "snd (findProject germanIndex (ByName ''German'')) =
      Some \<lparr>pk = 1, name = ''German'', description = ''[no description]'', normalizer = ''German'',
            ProjectInfo.relations = [(''see also'', ''see also'')]\<rparr>" by code_simp
  have f0: "snd (findProject frenchIndex (ByPk (Suc 0))) =
      Some \<lparr>pk = 1, name = ''French'', description = ''[no description]'', normalizer = ''French'',
            ProjectInfo.relations = [(''see also'', ''see also'')]\<rparr>" by code_simp
  have f1: "snd (findProject frenchIndex (ByName ''French'')) =
      Some \<lparr>pk = 1, name = ''French'', description = ''[no description]'', normalizer = ''French'',
            ProjectInfo.relations = [(''see also'', ''see also'')]\<rparr>" by code_simp
  have n: "snd (findProject (snd (removeProject freshIndex (ByPk 0))) (ByPk 0)) = None"
    by code_simp
  show ?thesis
    using normalize_total_only_for_registered[where project="ByPk 0" and st=frenchIndex and phrase="''Cat''"]
      normalize_total_only_for_registered[where project="ByName []" and st=frenchIndex and phrase="''Cat''"]
      normalize_total_only_for_registered[where project="ByPk 1" and st=germanIndex and phrase="''Cat''"]
      normalize_total_only_for_registered[where project="ByName ''German''" and st=germanIndex and phrase="''Cat''"]
      normalize_total_only_for_registered[where project="ByPk 1" and st=frenchIndex and phrase="''Cat''"]
      normalize_total_only_for_registered[where project="ByName ''French''" and st=frenchIndex and phrase="''Cat''"]
      normalize_total_only_for_registered[where project="ByInfo makeDefaultProject" and st=freshIndex and phrase="''Cat''"]
      normalize_total_only_for_registered[where project="ByInfo (makeDefaultProject\<lparr>normalizer := ''German''\<rparr>)" and st=freshIndex and phrase="''Cat''"]
      normalize_total_only_for_registered[where project="ByInfo (makeDefaultProject\<lparr>normalizer := ''French''\<rparr>)" and st=freshIndex and phrase="''Cat''"]
      normalize_total_only_for_registered[where project="ByPk 0" and st="snd (removeProject freshIndex (ByPk 0))" and phrase="''Cat''"]
    by (simp add: d0 d1 g0 g1 f0 f1 n makeDefaultProject_def)
qed

section \<open>The claim about \<open>memfree\<close>\<close>

lemma excess_small: "n < 9007199254740992 \<Longrightarrow> excess n = 0"
  by (subst excess.simps) simp

lemma roundDouble_exact: "\<bar>x\<bar> < 9007199254740992 \<Longrightarrow> roundDouble x = x"
  by (simp add: roundDouble_def excess_small Let_def mult_sgn_abs)

lemma roundDouble_2_80:
  "roundDouble (5242880 - 1208925819614629174706176) = - 1208925819614629174706176"
  by code_simp

text \<open>
  C9, as stated: \<open>memfree()\<close> resolves to exactly 5242880 - \<open>b\<close> for every byte count \<open>b\<close>
  the storage reports. It does not for a count beyond the integers a double holds
  exactly: at \<open>b\<close> = 2^80 = 1208925819614629174706176 the subtraction is rounded and the
  promise resolves to -2^80, which is not 5242880 - 2^80.
\<close>

theorem memfree_rounds_large_usage:
  "fst (memfree (freshIndex\<lparr>chrome := emptyChrome 1208925819614629174706176\<rparr>)) =
     Resolved (- 1208925819614629174706176) \<and>
   (5242880 - 1208925819614629174706176 :: int) \<noteq> - 1208925819614629174706176"
  using roundDouble_2_80
  by (simp add: memfree_def getBytesInUse_def emptyChrome_def nextError_def called_def)

text \<open>
  C9, amended: when the storage reports \<open>b\<close> bytes in use (the call does not fail) and
  \<open>b\<close> is at most 2^53 = 9007199254740992, \<open>memfree()\<close> resolves to exactly 5242880 - \<open>b\<close>;
  so it does at 0 and at 5242880.
\<close>

theorem memfree_reports_budget_minus_usage:
  "nextError (chrome st) = None \<Longrightarrow> bytesInUse (chrome st) \<le> 9007199254740992 \<Longrightarrow>
   fst (memfree st) = Resolved (5242880 - int (bytesInUse (chrome st)))"
  by (simp add: memfree_def getBytesInUse_def roundDouble_exact)

theorem memfree_reports_budget_minus_usage_witness:
  "fst (memfree (newIndex (emptyChrome 0) [] 0 [] [])) = Resolved 5242880 \<and>
   fst (memfree (newIndex (emptyChrome 5242880) [] 0 [] [])) = Resolved 0 \<and>
   fst (memfree (newIndex (emptyChrome 9007199254740992) [] 0 [] [])) =
     Resolved (- 9007199249498112)"
proof -
  let ?a = "newIndex (emptyChrome 0) [] 0 [] []"
  let ?b = "newIndex (emptyChrome 5242880) [] 0 [] []"
  let ?c = "newIndex (emptyChrome 9007199254740992) [] 0 [] []"
  have a: "nextError (chrome ?a) = None" "bytesInUse (chrome ?a) = 0"
    by (simp_all add: newIndex_def emptyChrome_def storageSet_def nextError_def called_def Let_def)
  have b: "nextError (chrome ?b) = None" "bytesInUse (chrome ?b) = 5242880"
    by (simp_all add: newIndex_def emptyChrome_def storageSet_def nextError_def called_def Let_def)
  have c: "nextError (chrome ?c) = None" "bytesInUse (chrome ?c) = 9007199254740992"
    by (simp_all add: newIndex_def emptyChrome_def storageSet_def nextError_def called_def Let_def)
  show ?thesis
    using memfree_reports_budget_minus_usage[OF a(1)] memfree_reports_budget_minus_usage[OF b(1)]
      memfree_reports_budget_minus_usage[OF c(1)]
    by (simp add: a(2) b(2) c(2))
qed

section \<open>The claim about \<open>reverseRelation\<close>\<close>

text \<open>
  C2 says that \<open>reverseRelation\<close> returns the paired relation type of a declared
  relation. In the default project, which declares the pair ("see also", "see also"),
  the code returns \<open>null\<close> for "see also": its loop compares the relation with the
  characters of the array index "0", not with the pair stored there.
\<close>

theorem reverseRelation_of_declared_is_null:
  "reverseRelation freshIndex (ByPk 0) ''see also'' = Inr Null"
  by code_simp

section \<open>What \<open>reverseRelation\<close> can return\<close>

text \<open>
  The indices of an array are decimal numbers. An index of two or more digits comes after
  the one-digit indices, and each of its digits is itself an earlier index; so the first
  index that matches a relation has one digit, and the result is never a string.
\<close>

lemma showNat_small: "d < 10 \<Longrightarrow> showNat d = [char_of (48 + d)]"
  by (subst showNat.simps) simp

lemma showNat_length: "length (showNat i) \<ge> 2 \<Longrightarrow> i \<ge> 10"
  by (cases "i < 10") (simp_all add: showNat_small)

lemma showNat_digits: "c \<in> set (showNat i) \<Longrightarrow> \<exists>d::nat. d < 10 \<and> c = char_of (48 + d)"
proof (induction i rule: showNat.induct)
  case (1 n)
  show ?case
  proof (cases "n < 10")
    case True
    then show ?thesis using "1.prems" by (intro exI[of _ n]) (simp add: showNat_small)
  next
    case False
    then have "c \<in> set (showNat (n div 10)) \<or> c = char_of (48 + n mod 10)"
      using "1.prems" by (subst (asm) showNat.simps) auto
    then show ?thesis
    proof
      assume "c \<in> set (showNat (n div 10))"
      then show ?thesis using "1.IH" False by simp
    next
      assume "c = char_of (48 + n mod 10)"
      moreover have "n mod 10 < 10" by simp
      ultimately show ?thesis by (intro exI[of _ "n mod 10"]) simp
    qed
  qed
qed

text \<open>Where the loop returns a name, an index of two or more characters was the first to match.\<close>

lemma loop_name:
  "reverseRelationLoop ks r = Name s \<Longrightarrow>
   \<exists>pre k post. ks = pre @ k # post \<and>
      (\<forall>k'\<in>set pre. charAt k' 0 \<noteq> Some r) \<and> 2 \<le> length k \<and>
      (charAt k 0 = Some r \<or> charAt k 1 = Some r)"
proof (induction ks)
  case Nil
  then show ?case by simp
next
  case (Cons k ks)
  show ?case
  proof (cases "charAt k 0 = Some r \<or> charAt k 1 = Some r")
    case True
    then have "2 \<le> length k"
      using Cons.prems by (auto simp: charAt_def split: if_splits option.splits)
    then show ?thesis using True by (intro exI[of _ "[]"] exI[of _ k] exI[of _ ks]) simp
  next
    case False
    then have "reverseRelationLoop ks r = Name s" using Cons.prems by simp
    then obtain pre k' post where h: "ks = pre @ k' # post"
      "\<forall>x\<in>set pre. charAt x 0 \<noteq> Some r" "2 \<le> length k'"
      "charAt k' 0 = Some r \<or> charAt k' 1 = Some r"
      using Cons.IH by blast
    show ?thesis
      using h False by (intro exI[of _ "k # pre"] exI[of _ k'] exI[of _ post]) simp
  qed
qed

lemma loop_never_name: "reverseRelationLoop (map showNat [0..<n]) r \<noteq> Name s"
proof
  assume "reverseRelationLoop (map showNat [0..<n]) r = Name s"
  then obtain pre k post where h: "map showNat [0..<n] = pre @ k # post"
      "\<forall>x\<in>set pre. charAt x 0 \<noteq> Some r" "2 \<le> length k"
      "charAt k 0 = Some r \<or> charAt k 1 = Some r"
    using loop_name by blast
  let ?i = "length pre"
  have len: "?i < n" using arg_cong[OF h(1), of length] by simp
  have k: "k = showNat ?i"
    using arg_cong[OF h(1), of "\<lambda>xs. xs ! ?i"] len by simp
  have pre: "pre = map showNat [0..<?i]"
    using arg_cong[OF h(1), of "take ?i"] len by (simp add: take_map)
  have i10: "10 \<le> ?i" using showNat_length h(3) k by simp
  have "r = [k ! 0] \<or> r = [k ! 1]"
    using h(3,4) by (auto simp: charAt_def split: if_splits)
  moreover have "0 < length k" "1 < length k" using h(3) by linarith+
  ultimately have "\<exists>j<length k. r = [k ! j]" by blast
  then obtain c where c: "c \<in> set k" "r = [c]"
    using nth_mem by blast
  then obtain d :: nat where d: "d < 10" "c = char_of (48 + d)"
    using showNat_digits k by blast
  have "d < ?i" using d(1) i10 by simp
  then have "showNat d \<in> set (map showNat [0..<?i])" by simp
  then have "showNat d \<in> set pre" by (simp only: pre[symmetric])
  moreover have "charAt (showNat d) 0 = Some r"
    using d c(2) by (simp add: charAt_def showNat_small)
  ultimately show False using h(2) by blast
qed

lemma reverseRelation_never_name: "reverseRelation st project relation \<noteq> Inr (Name s)"
  using loop_never_name by (auto simp: reverseRelation_def split: option.splits)

section \<open>Consequences for \<open>deleteRelation\<close> and \<open>add\<close>\<close>

text \<open>\<open>deleteRelation\<close> never resolves, whatever it is applied to.\<close>

lemma thrown_not_resolved: "thrown ctx e \<noteq> Resolved x"
  by (cases ctx) (simp_all add: thrown_def)

lemma deleteContinuation_never_resolves:
  "fst (deleteContinuation ctx st projectName projectInfo key notePk data relation pair other) \<noteq> Resolved ()"
proof (cases "reverseRelation st (ByInfo projectInfo) relation")
  case (Inl e)
  then show ?thesis by (simp add: deleteContinuation_def thrown_not_resolved)
next
  case (Inr reversed)
  then have "\<And>s. reversed \<noteq> Name s" using reverseRelation_never_name by blast
  then have "(case reversed of Name s \<Rightarrow> if s = [] then None else Some s | _ \<Rightarrow> None) = None"
    by (cases reversed) auto
  then show ?thesis using Inr by (simp add: deleteContinuation_def)
qed

lemma deleteRelation_never_resolves:
  "fst (deleteRelation st phrase project relation pair) \<noteq> Resolved ()"
  unfolding deleteRelation_def
  by (simp add: deleteContinuation_never_resolves split: prod.splits option.splits sum.splits)

text \<open>
  \<open>add\<close> never changes the list a note has under a non-empty relation name: a mirror is
  only ever appended under the name \<open>''\<close>.
\<close>

lemma keptHeap_refl: "keptHeap h h"
  by (simp add: keptHeap_def)

lemma keptHeap_trans: "keptHeap h h' \<Longrightarrow> keptHeap h' h'' \<Longrightarrow> keptHeap h h''"
  unfolding keptHeap_def by (metis (no_types, lifting))

lemma keptHeap_update:
  assumes "a < length h" "h ! a = Note n"
  shows "keptHeap h (h[a := Note (n\<lparr>NoteRecord.relations := AList.update [] ps (NoteRecord.relations n)\<rparr>)])"
  unfolding keptHeap_def using assms
  by (auto simp: nth_list_update update_conv')

lemma reversedOr_empty: "reversedOr st projectInfo relation [] = Inr rr \<Longrightarrow> rr = []"
  using reverseRelation_never_name[of st "ByInfo projectInfo" relation]
  by (auto simp: reversedOr_def split: sum.splits relname.splits)

lemma cached_Some: "cached st key = Some (a, v) \<Longrightarrow> a < length (heap st) \<and> heap st ! a = v"
  by (auto simp: cached_def deref_def split: ref.splits option.splits if_splits)

lemma mirror_keeps:
  assumes "mirror projectInfo keyPair relation pair (st, [], storable) = (e, st', rr', storable')"
  shows "rr' = [] \<and> keptHeap (heap st) (heap st')"
proof (cases "cached st (enkey pair)")
  case None
  then show ?thesis using assms by (simp add: mirror_def keptHeap_refl)
next
  case (Some av)
  obtain a other where av: "av = (a, other)" by (cases av)
  have a: "a < length (heap st)" "heap st ! a = other" using cached_Some Some av by auto
  show ?thesis
  proof (cases "reversedOr st projectInfo relation []")
    case (Inl x)
    then show ?thesis using assms Some av by (simp add: mirror_def keptHeap_refl)
  next
    case (Inr rr)
    then have rr: "rr = []" using reversedOr_empty by blast
    show ?thesis
      using assms Some av Inr rr a keptHeap_update[of a "heap st"]
      by (auto simp: mirror_def keptHeap_refl split: jsval.splits option.splits if_splits)
  qed
qed

lemma forEach_mirror_keeps:
  "forEach (mirror projectInfo keyPair relation) pairs (st, [], storable) = (e, st', rr', storable')
   \<Longrightarrow> keptHeap (heap st) (heap st')"
proof (induction pairs arbitrary: st storable)
  case Nil
  then show ?case by (simp add: keptHeap_refl)
next
  case (Cons p ps)
  obtain e1 st1 rr1 storable1 where m: "mirror projectInfo keyPair relation p (st, [], storable) = (e1, st1, rr1, storable1)"
    by (metis prod_cases4)
  have k: "rr1 = []" "keptHeap (heap st) (heap st1)" using mirror_keeps[OF m] by auto
  show ?case
  proof (cases e1)
    case None
    then have "forEach (mirror projectInfo keyPair relation) ps (st1, [], storable1) = (e, st', rr', storable')"
      using Cons.prems m k(1) by simp
    then show ?thesis using Cons.IH k(2) keptHeap_trans by blast
  next
    case (Some x)
    then show ?thesis using Cons.prems m k by auto
  qed
qed

lemma mirrorAll_keeps:
  "mirrorAll projectInfo keyPair entry (st, storable) = (e, st', storable') \<Longrightarrow> keptHeap (heap st) (heap st')"
  using forEach_mirror_keeps
  by (cases entry) (auto simp: mirrorAll_def split: prod.splits)

lemma forEach_mirrorAll_keeps:
  "forEach (mirrorAll projectInfo keyPair) entries (st, storable) = (e, st', storable')
   \<Longrightarrow> keptHeap (heap st) (heap st')"
proof (induction entries arbitrary: st storable)
  case Nil
  then show ?case by (simp add: keptHeap_refl)
next
  case (Cons x xs)
  obtain e1 st1 storable1 where m: "mirrorAll projectInfo keyPair x (st, storable) = (e1, st1, storable1)"
    by (metis prod_cases3)
  have k: "keptHeap (heap st) (heap st1)" using mirrorAll_keeps[OF m] .
  show ?case
  proof (cases e1)
    case None
    then have "forEach (mirrorAll projectInfo keyPair) xs (st1, storable1) = (e, st', storable')"
      using Cons.prems m by simp
    then show ?thesis using Cons.IH k keptHeap_trans by blast
  next
    case (Some x)
    then show ?thesis using Cons.prems m k by auto
  qed
qed

lemma indexPhrase_heap:
  "indexPhrase st projectInfo key = (n, st1, storable1) \<Longrightarrow> heap st1 = heap st"
  by (auto simp: indexPhrase_def Let_def split: option.splits if_splits)

lemma add_keeps_named_relations:
  "keptHeap (heap st) (heap (snd (add st phrase project data)))"
proof (cases "snd (findProject st (ByPk project))")
  case None
  then show ?thesis by (simp add: add_def keptHeap_refl)
next
  case (Some projectInfo)
  show ?thesis
  proof (cases "normalize st phrase (ByInfo projectInfo)")
    case (Inl e)
    then show ?thesis using Some by (simp add: add_def keptHeap_refl)
  next
    case (Inr key)
    obtain notePk st1 storable1 where ip: "indexPhrase st projectInfo key = (notePk, st1, storable1)"
      by (metis prod_cases3)
    have h1: "heap st1 = heap st" using indexPhrase_heap[OF ip] .
    let ?keyPair = "(pk projectInfo, notePk)"
    let ?st2 = "cacheSet (enkey ?keyPair) (Ref data) st1"
    have h2: "heap ?st2 = heap st" using h1 by (simp add: cacheSet_def)
    show ?thesis
    proof (cases "\<exists>d. deref ?st2 (Ref data) = Some (Note d)")
      case False
      then have "snd (add st phrase project data) = ?st2"
        using Some Inr ip by (auto simp: add_def Let_def split: option.splits jsval.splits)
      then show ?thesis using h2 by (simp add: keptHeap_refl)
    next
      case True
      then obtain d where d: "deref ?st2 (Ref data) = Some (Note d)" by blast
      let ?tags = "addTags (NoteRecord.tags d) (tags ?st2)"
      let ?storable2 = "if length ?tags > length (tags ?st2)
                        then AList.update ''tags'' (Val (TagsV ?tags)) storable1 else storable1"
      let ?st3 = "?st2\<lparr>tags := ?tags\<rparr>"
      obtain e st4 storable3 where
        f: "forEach (mirrorAll projectInfo ?keyPair) (NoteRecord.relations d) (?st3, ?storable2) = (e, st4, storable3)"
        by (metis prod_cases3)
      have "keptHeap (heap ?st3) (heap st4)" using forEach_mirrorAll_keeps[OF f] .
      then have k: "keptHeap (heap st) (heap st4)" using h2 by simp
      have "heap (snd (add st phrase project data)) = heap st4"
        using Some Inr ip d f
        by (cases e) (auto simp: add_def Let_def split: prod.splits option.splits)
      then show ?thesis using k by simp
    qed
  qed
qed

section \<open>The claims about relations\<close>

text \<open>
  C1 says that after \<open>add\<close> of a note A with a relation R to a cached note B, B has A's
  key under the reverse of R. Adding "dog" (0:2) with "see also" to "cat" (0:0, no
  relations) and to "bird" (0:1, which has a "see also" list) succeeds and leaves both
  targets as they were: neither has the key (0, 2).
\<close>

theorem add_leaves_targets_without_mirror:
  "fst withDog = Resolved () \<and>
   relationsAt (snd withDog) ''0:2'' = Some [(''see also'', [(0, 0), (0, 1)])] \<and>
   relationsAt (snd withDog) ''0:0'' = Some [] \<and>
   relationsAt (snd withDog) ''0:1'' = Some [(''see also'', [(0, 0)])]"
  by code_simp

text \<open>
  C3 says that \<open>deleteRelation\<close> undoes the addition of a relation. With "dog" and "cat"
  stored without relations and "dog" then saved with "see also" to "cat",
  \<open>deleteRelation\<close> of that relation is rejected and changes nothing: "dog" keeps the
  relation, in the cache and in storage. It is rejected as well, and changes nothing,
  when both notes hold the relation to each other.
\<close>

theorem deleteRelation_rejected_relation_stays:
  "relationsAt catAndDog ''0:1'' = Some [] \<and> storedRelationsAt catAndDog ''0:1'' = Some [] \<and>
   deleteRelation related ''dog'' makeDefaultProject ''see also'' (0, 0) =
     (Rejected (Message ''could not find the reversed relation for see also in ''), related) \<and>
   relationsAt related ''0:1'' = Some [(''see also'', [(0, 0)])] \<and>
   storedRelationsAt related ''0:1'' = Some [(''see also'', [(0, 0)])] \<and>
   deleteRelation mutual ''dog'' makeDefaultProject ''see also'' (0, 0) =
     (Rejected (Message ''could not find the reversed relation for see also in ''), mutual) \<and>
   relationsAt mutual ''0:1'' = Some [(''see also'', [(0, 0)])] \<and>
   relationsAt mutual ''0:0'' = Some [(''see also'', [(0, 1)])]"
  by code_simp

section \<open>The claim about project 0\<close>

text \<open>The constructor, on empty phrase indices, and \<open>clear\<close> put project 0 in place.\<close>

lemma update_mem: "(k, v) \<in> set (AList.update k v al)"
  by (induction al) auto

lemma newIndex_hasProjectZero: "hasProjectZero (newIndex c ps current [] ts)"
  using update_mem[of "[]" makeDefaultProject ps]
  by (force simp: newIndex_def hasProjectZero_def makeDefaultProject_def Let_def)

lemma clear_hasProjectZero: "fst (clear st) = Resolved () \<Longrightarrow> hasProjectZero (snd (clear st))"
  by (auto simp: clear_def hasProjectZero_def makeDefaultProject_def Let_def
      split: prod.splits option.splits)

text \<open>
  C4 says that no operation deletes the project with primary key 0. \<open>removeProject\<close>
  does, when asked to remove project 0 and also when asked to remove a project that
  does not exist (which resolves to the default project).
\<close>

theorem removeProject_deletes_project_zero:
  "hasProjectZero freshIndex \<and>
   fst (removeProject freshIndex (ByPk 0)) = Resolved () \<and>
   \<not> hasProjectZero (snd (removeProject freshIndex (ByPk 0))) \<and>
   fst (removeProject freshIndex (ByName ''no such project'')) = Resolved () \<and>
   \<not> hasProjectZero (snd (removeProject freshIndex (ByName ''no such project'')))"
  by code_simp

section \<open>The claims about \<open>find\<close>\<close>

text \<open>
  C5 says that every note read from storage during \<open>find\<close> is put into the cache. The
  ad hoc search reads "cat" from storage, returns it, and leaves the cache empty.
\<close>

theorem find_ad_hoc_does_not_cache:
  "fst (find (loadedIndex []) (AdHocQuery exactCat)) = Resolved (Found (0, Ref 0)) \<and>
   calls (chrome (snd (find (loadedIndex []) (AdHocQuery exactCat)))) = [Get [''0:0'']] \<and>
   deref (snd (find (loadedIndex []) (AdHocQuery exactCat))) (Ref 0) = Some (Note (plainNote [])) \<and>
   cache (snd (find (loadedIndex []) (AdHocQuery exactCat))) = []"
  by code_simp

text \<open>The lookup does cache what it reads: a second object, not the one it returns.\<close>

lemma find_lookup_caches_a_copy:
  "fst (find (loadedIndex []) (Lookup ''cat'' None)) = Resolved (Found (0, Ref 0)) \<and>
   cache (snd (find (loadedIndex []) (Lookup ''cat'' None))) = [(''0:0'', Ref 1)] \<and>
   deref (snd (find (loadedIndex []) (Lookup ''cat'' None))) (Ref 1) = Some (Note (plainNote []))"
  by code_simp

text \<open>
  C6 says that an ad hoc query with no criterion resolves to \<open>{state: "none"}\<close> without
  consulting the storage. The query does read every note that is not cached from
  storage, and when that read fails the promise is rejected.
\<close>

theorem find_without_criteria_reads_storage:
  "fst (find (loadedIndex []) (AdHocQuery noCriteria)) = Resolved NoMatch \<and>
   calls (chrome (snd (find (loadedIndex []) (AdHocQuery noCriteria)))) = [Get [''0:0'']] \<and>
   fst (find (loadedIndex [Some ''the storage fails'']) (AdHocQuery noCriteria)) =
     Rejected (LastError ''the storage fails'')"
  by code_simp

section \<open>The German scenario\<close>

text \<open>
  C7, as stated: U+00DC "ber" is stored under the key "uber". It is not: the German
  normalizer turns U+00FC into "ue", and the key is "ueber".
\<close>

theorem uber_is_not_the_key:
  "normalize germanIndex (CHR 0xDC # ''ber'') (ByPk 1) = Inr ''ueber'' \<and>
   indexEntry (snd uberAdded) 1 ''uber'' = None \<and>
   indexEntry (snd uberAdded) 1 ''ueber'' = Some 0"
  by code_simp

text \<open>
  C7, amended: in the project "German" with the normalizer "German", adding U+00DC "ber"
  stores it in the project's phrase index under the key "ueber", and the exact lookup
  of U+00FC "ber" in that project finds that same note (the object that was added).
\<close>

theorem german_scenario:
  "fst uberAdded = Resolved () \<and>
   projectIndices (snd uberAdded) = [(0, []), (1, [(''ueber'', 0)])] \<and>
   cacheGet (snd uberAdded) ''1:0'' = Ref 0 \<and>
   fst (find (snd uberAdded) (Lookup (CHR 0xFC # ''ber'') (Some 1))) = Resolved (Found (1, Ref 0)) \<and>
   fst (find (snd uberAdded) (AdHocQuery (noCriteria\<lparr>q_phrase := Some (CHR 0xFC # ''ber''),
          q_strictness := Some Exact, q_project := Some [1], q_starred := Some False\<rparr>))) =
     Resolved (Found (1, Ref 0))"
  by code_simp

end
